theory Spec2Isabelle
  imports Main
begin

section \<open>Strings and numbers of the host language\<close>

text \<open>
  The program is the class \<open>CareCoordinatorApp\<close> of the front end. Strings are
  modelled as \<open>string\<close> (lists of 8-bit characters), numbers that the program
  only ever uses as whole minutes or timestamps as \<open>int\<close>, and the value
  \<open>NaN\<close> as \<open>None\<close>.
\<close>

definition isDigit :: "char \<Rightarrow> bool" where
  "isDigit c = (48 \<le> (of_char c :: nat) \<and> (of_char c :: nat) \<le> 57)"

definition digitVal :: "char \<Rightarrow> nat" where
  "digitVal c = (of_char c :: nat) - 48"

definition digitChar :: "nat \<Rightarrow> char" where
  "digitChar d = char_of (48 + d)"

text \<open>
  \<open>Number(s)\<close> on the fragment the program meets: a string of decimal digits is
  its value, the empty string is 0, and every other string is taken to be
  \<open>NaN\<close> (the host language also reads signs, blanks, fractions, exponents
  and hexadecimal literals, which no time string of the program contains).
\<close>

definition Number :: "string \<Rightarrow> int option" where
  "Number s = (if list_all isDigit s
     then Some (int (foldl (\<lambda>a c. 10 * a + digitVal c) 0 s)) else None)"

text \<open>\<open>n.toString()\<close> for a whole number.\<close>

function natToString :: "nat \<Rightarrow> string" where
  "natToString n = (if n < 10 then [digitChar n]
     else natToString (n div 10) @ [digitChar (n mod 10)])"
  by pat_completeness auto
termination
  by (relation "measure id") auto

declare natToString.simps [simp del]

definition toString :: "int \<Rightarrow> string" where
  "toString i = (if i < 0 then CHR ''-'' # natToString (nat (- i)) else natToString (nat i))"

text \<open>\<open>s.padStart(2, '0')\<close>.\<close>

definition padStart2 :: "string \<Rightarrow> string" where
  "padStart2 s = replicate (2 - length s) (CHR ''0'') @ s"

text \<open>\<open>s.split(c)\<close> for a one-character separator.\<close>

fun split :: "char \<Rightarrow> string \<Rightarrow> string list" where
  "split c [] = [[]]"
| "split c (x # xs) =
     (if x = c then [] # split c xs
      else (case split c xs of [] \<Rightarrow> [[x]] | y # ys \<Rightarrow> (x # y) # ys))"

text \<open>The remainder operator \<open>a % b\<close>: the sign follows the dividend.\<close>

definition js_rem :: "int \<Rightarrow> int \<Rightarrow> int" where
  "js_rem a b = sgn a * (\<bar>a\<bar> mod \<bar>b\<bar>)"

text \<open>
  A valid date string, the only kind of string a date picker keeps as its
  value: a year of four or more digits that is not zero, a month 01..12 and a
  day 01..the number of days of that month, joined by hyphens.
\<close>

definition decimal :: "string \<Rightarrow> nat" where
  "decimal s = foldl (\<lambda>a c. 10 * a + digitVal c) 0 s"

definition isLeapYear :: "nat \<Rightarrow> bool" where
  "isLeapYear y = (y mod 4 = 0 \<and> (y mod 400 = 0 \<or> 0 < y mod 100))"

definition daysInMonth :: "nat \<Rightarrow> nat \<Rightarrow> nat" where
  "daysInMonth y m =
     (if m = 2 then (if isLeapYear y then 29 else 28)
      else if m = 4 \<or> m = 6 \<or> m = 9 \<or> m = 11 then 30 else 31)"

definition isDateString :: "string \<Rightarrow> bool" where
  "isDateString s =
     (case split (CHR ''-'') s of
        [y, m, d] \<Rightarrow>
          4 \<le> length y \<and> list_all isDigit y \<and> 0 < decimal y
          \<and> length m = 2 \<and> list_all isDigit m \<and> 1 \<le> decimal m \<and> decimal m \<le> 12
          \<and> length d = 2 \<and> list_all isDigit d \<and> 1 \<le> decimal d
          \<and> decimal d \<le> daysInMonth (decimal y) (decimal m)
      | _ \<Rightarrow> False)"

section \<open>Time strings and time slots\<close>

text \<open>
  \<open>parseTime(timeString)\<close>: \<open>[hours, minutes] = timeString.split(':').map(Number)\<close>,
  then \<open>hours * 60 + minutes\<close>. A missing or unreadable part makes the result
  \<open>NaN\<close>.
\<close>

definition parseTime :: "string \<Rightarrow> int option" where
  "parseTime timeString =
     (case map Number (split (CHR '':'') timeString) of
        Some hours # Some minutes # _ \<Rightarrow> Some (hours * 60 + minutes)
      | _ \<Rightarrow> None)"

text \<open>
  \<open>formatTime(minutes)\<close>: \<open>hours = Math.floor(minutes / 60)\<close>,
  \<open>mins = minutes % 60\<close>, both printed and padded to two characters.
\<close>

definition formatTime :: "int \<Rightarrow> string" where
  "formatTime minutes =
     (let hours = minutes div 60;
          mins = js_rem minutes 60
      in padStart2 (toString hours) @ '':'' @ padStart2 (toString mins))"

text \<open>
  The loop of \<open>generateTimeSlots\<close>:
  \<^verbatim>\<open>while (currentTime < endTime) { slots.push(formatTime(currentTime)); currentTime += 30; }\<close>
  \<open>slotTimes\<close> is the sequence of values \<open>currentTime\<close> takes in the body.
\<close>

function slotTimes :: "int \<Rightarrow> int \<Rightarrow> int list" where
  "slotTimes currentTime endTime =
     (if currentTime < endTime then currentTime # slotTimes (currentTime + 30) endTime else [])"
  by pat_completeness auto
termination
  by (relation "measure (\<lambda>(currentTime, endTime). nat (endTime - currentTime))") auto

declare slotTimes.simps [simp del]

definition timeSlots :: "int option \<Rightarrow> int option \<Rightarrow> string list" where
  "timeSlots startTime endTime =
     (case (startTime, endTime) of
        (Some s, Some e) \<Rightarrow> map formatTime (slotTimes s e)
      | _ \<Rightarrow> [])"

text \<open>\<open>s.toLowerCase()\<close> on the ASCII letters; other characters are kept.\<close>

definition lowerChar :: "char \<Rightarrow> char" where
  "lowerChar c = (if 65 \<le> (of_char c :: nat) \<and> (of_char c :: nat) \<le> 90
     then char_of ((of_char c :: nat) + 32) else c)"

definition toLowerCase :: "string \<Rightarrow> string" where
  "toLowerCase s = map lowerChar s"

text \<open>\<open>s.includes(t)\<close>: \<open>t\<close> occurs in \<open>s\<close> as a contiguous piece.\<close>

fun startsWith :: "string \<Rightarrow> string \<Rightarrow> bool" where
  "startsWith s [] = True"
| "startsWith [] (c # t) = False"
| "startsWith (x # s) (c # t) = (x = c \<and> startsWith s t)"

fun str_includes :: "string \<Rightarrow> string \<Rightarrow> bool" where
  "str_includes [] t = (t = [])"
| "str_includes (x # s) t = (startsWith (x # s) t \<or> str_includes s t)"

text \<open>\<open>s.trim()\<close> for the ASCII white space.\<close>

definition isSpace :: "char \<Rightarrow> bool" where
  "isSpace c = ((of_char c :: nat) = 32 \<or> (9 \<le> (of_char c :: nat) \<and> (of_char c :: nat) \<le> 13))"

definition trim :: "string \<Rightarrow> string" where
  "trim s = rev (dropWhile isSpace (rev (dropWhile isSpace s)))"

text \<open>A string is truthy when it is not empty; an absent property is \<open>undefined\<close>, falsy.\<close>

definition truthy :: "string option \<Rightarrow> bool" where
  "truthy x = (case x of None \<Rightarrow> False | Some s \<Rightarrow> s \<noteq> [])"

section \<open>The availability catalogue\<close>

text \<open>
  An entry of \<open>this.doctorAvailability\<close> is either one segment
  \<open>{days, hours, location}\<close> or a split schedule \<open>{schedule: [...], get days()}\<close>,
  whose \<open>days\<close> accessor returns a list written out in the source.
\<close>

record hours =
  start :: string
  finish :: string

record segment =
  days :: "string list"
  hours :: hours
  location :: string

datatype availability =
    Single segment
  | Split (schedule: "segment list") (combined: "string list")

fun days_of :: "availability \<Rightarrow> string list" where
  "days_of (Single s) = days s"
| "days_of (Split sch ds) = ds"

definition doctorAvailability :: "string \<Rightarrow> availability option" where
  "doctorAvailability = map_of
    [(''Grey, Meredith'', Single
        \<lparr>days = [''monday'', ''tuesday'', ''wednesday'', ''thursday'', ''friday''],
         hours = \<lparr>start = ''09:00'', finish = ''17:00''\<rparr>,
         location = ''Sloan Primary Care''\<rparr>),
     (''House, Gregory'', Split
        [\<lparr>days = [''monday'', ''tuesday'', ''wednesday''],
          hours = \<lparr>start = ''09:00'', finish = ''17:00''\<rparr>,
          location = ''PPTH Orthopedics''\<rparr>,
         \<lparr>days = [''thursday'', ''friday''],
          hours = \<lparr>start = ''09:00'', finish = ''17:00''\<rparr>,
          location = ''Jefferson Hospital''\<rparr>]
        [''monday'', ''tuesday'', ''wednesday'', ''thursday'', ''friday'']),
     (''Yang, Cristina'', Single
        \<lparr>days = [''monday'', ''tuesday'', ''wednesday'', ''thursday'', ''friday''],
         hours = \<lparr>start = ''09:00'', finish = ''17:00''\<rparr>,
         location = ''Seattle Grace Cardiac Surgery''\<rparr>),
     (''Perry, Chris'', Single
        \<lparr>days = [''monday'', ''tuesday'', ''wednesday''],
         hours = \<lparr>start = ''09:00'', finish = ''17:00''\<rparr>,
         location = ''Sacred Heart Surgical Department''\<rparr>),
     (''Brennan, Temperance'', Single
        \<lparr>days = [''tuesday'', ''wednesday'', ''thursday''],
         hours = \<lparr>start = ''10:00'', finish = ''16:00''\<rparr>,
         location = ''Jefferson Hospital''\<rparr>)]"

text \<open>
  \<open>schedule.find(s => s.days.includes(dayName))\<close>, the segment looked up for a
  weekday in \<open>handleDateSelection\<close> and \<open>generateTimeSlots\<close>.
\<close>

definition scheduleForDay :: "segment list \<Rightarrow> string \<Rightarrow> segment option" where
  "scheduleForDay sch dayName = find (\<lambda>s. dayName \<in> set (days s)) sch"

section \<open>The page\<close>

text \<open>
  The form is held in the elements of the page. An element is a \<open>select\<close>
  with its list of options, or an input with its \<open>type\<close> (any element that is
  not a \<open>select\<close> is taken as an input: it has no options). An element has
  the string its \<open>value\<close> property reads, a \<open>disabled\<close> flag and the \<open>min\<close>
  and \<open>max\<close> attributes.
\<close>

record select_option =
  optionValue :: string
  textContent :: string

datatype kind =
    Select "select_option list"
  | Input string

record element =
  kind :: kind
  val :: string
  disabled :: bool
  attr_min :: string
  attr_max :: string

definition tagName :: "element \<Rightarrow> string" where
  "tagName e = (case kind e of Select opts \<Rightarrow> ''SELECT'' | Input t \<Rightarrow> ''INPUT'')"

definition options :: "element \<Rightarrow> select_option list" where
  "options e = (case kind e of Select opts \<Rightarrow> opts | Input t \<Rightarrow> [])"

text \<open>
  Assigning \<open>element.value = v\<close>. A \<open>select\<close> selects the first option whose
  value is \<open>v\<close>; when there is none, no option is selected and its value
  reads as the empty string. A date picker (an input of type \<open>date\<close>, as the
  program drives the date field: it enables it as a "date picker" and sets
  ISO dates as its \<open>min\<close> and \<open>max\<close>) keeps a valid date string and empties
  every other string. Any other input keeps the string (of the input types
  that restrict their value only the date picker is modelled).
\<close>

definition setValue :: "element \<Rightarrow> string \<Rightarrow> element" where
  "setValue e v =
     (case kind e of
        Select opts \<Rightarrow> e\<lparr>val := (if v \<in> set (map optionValue opts) then v else [])\<rparr>
      | Input t \<Rightarrow>
          e\<lparr>val := (if t = ''date'' then (if isDateString v then v else []) else v)\<rparr>)"

text \<open>
  Assigning \<open>element.innerHTML\<close> a list of options: a \<open>select\<close> then shows its
  first option. \<open>appendChild\<close> adds an option at the end; the selection moves
  only when the \<open>select\<close> had no option before. Neither changes what an input
  reads.
\<close>

definition setInnerHTML :: "element \<Rightarrow> select_option list \<Rightarrow> element" where
  "setInnerHTML e opts =
     (case kind e of
        Select old \<Rightarrow>
          e\<lparr>kind := Select opts,
            val := (case opts of [] \<Rightarrow> [] | opt # _ \<Rightarrow> optionValue opt)\<rparr>
      | Input t \<Rightarrow> e)"

definition appendChild :: "element \<Rightarrow> select_option \<Rightarrow> element" where
  "appendChild e opt =
     (case kind e of
        Select opts \<Rightarrow>
          e\<lparr>kind := Select (opts @ [opt]),
            val := (if opts = [] then optionValue opt else val e)\<rparr>
      | Input t \<Rightarrow> e)"

text \<open>
  The page: the eight elements of the appointment form, which
  \<open>getAppointmentFormData\<close> and the handlers read without a check, and the
  other elements of the document that carry an id (the program itself reads
  \<open>patient-id\<close> and \<open>chat-input\<close> among them). \<open>schema\<close> lists the ids of
  the fields of the draft.
\<close>

record page =
  first_name :: element
  last_name :: element
  dob :: element
  doctor :: element
  appointment_type :: element
  appointment_location :: element
  appointment_date :: element
  appointment_time :: element
  others :: "string \<rightharpoonup> element"

definition schema :: "string list" where
  "schema = [''first-name'', ''last-name'', ''dob'', ''doctor'', ''appointment-type'',
             ''appointment-location'', ''appointment-date'', ''appointment-time'']"

definition getElementById :: "page \<Rightarrow> string \<Rightarrow> element option" where
  "getElementById p i =
     (if i = ''first-name'' then Some (first_name p)
      else if i = ''last-name'' then Some (last_name p)
      else if i = ''dob'' then Some (dob p)
      else if i = ''doctor'' then Some (doctor p)
      else if i = ''appointment-type'' then Some (appointment_type p)
      else if i = ''appointment-location'' then Some (appointment_location p)
      else if i = ''appointment-date'' then Some (appointment_date p)
      else if i = ''appointment-time'' then Some (appointment_time p)
      else others p i)"

text \<open>The element with id \<open>i\<close> after it was changed in place.\<close>

definition putElement :: "page \<Rightarrow> string \<Rightarrow> element \<Rightarrow> page" where
  "putElement p i e =
     (if i = ''first-name'' then p\<lparr>first_name := e\<rparr>
      else if i = ''last-name'' then p\<lparr>last_name := e\<rparr>
      else if i = ''dob'' then p\<lparr>dob := e\<rparr>
      else if i = ''doctor'' then p\<lparr>doctor := e\<rparr>
      else if i = ''appointment-type'' then p\<lparr>appointment_type := e\<rparr>
      else if i = ''appointment-location'' then p\<lparr>appointment_location := e\<rparr>
      else if i = ''appointment-date'' then p\<lparr>appointment_date := e\<rparr>
      else if i = ''appointment-time'' then p\<lparr>appointment_time := e\<rparr>
      else p\<lparr>others := (others p)(i \<mapsto> e)\<rparr>)"

section \<open>Matching a proposed string against the options of a select\<close>

text \<open>
  \<open>findMatchingOption(selectElement, searchValue)\<close>: four calls of
  \<open>options.find\<close>, each returning at once when it finds an option.
\<close>

definition findMatchingOption :: "element \<Rightarrow> string \<Rightarrow> select_option option" where
  "findMatchingOption selectElement searchValue =
     (case find (\<lambda>opt. optionValue opt = searchValue \<or> textContent opt = searchValue)
             (options selectElement) of
        Some m \<Rightarrow> Some m
      | None \<Rightarrow>
     (case find (\<lambda>opt. toLowerCase (optionValue opt) = toLowerCase searchValue
                      \<or> toLowerCase (textContent opt) = toLowerCase searchValue)
             (options selectElement) of
        Some m \<Rightarrow> Some m
      | None \<Rightarrow>
     (case find (\<lambda>opt. str_includes (toLowerCase (optionValue opt)) (toLowerCase searchValue)
                      \<or> str_includes (toLowerCase (textContent opt)) (toLowerCase searchValue))
             (options selectElement) of
        Some m \<Rightarrow> Some m
      | None \<Rightarrow>
     (case find (\<lambda>opt. str_includes (toLowerCase searchValue) (toLowerCase (optionValue opt))
                      \<or> str_includes (toLowerCase searchValue) (toLowerCase (textContent opt)))
             (options selectElement) of
        Some m \<Rightarrow> Some m
      | None \<Rightarrow> None))))"

text \<open>
  The four tiers in the words of the specification, for the comparison with
  \<open>findMatchingOption\<close>: tier 1 is the exact match on value or label, tier 2
  the exact match without regard to case, tier 3 the candidate as a substring
  of the value or label, tier 4 the value or label as a substring of the
  candidate, the last two without regard to case.
\<close>

definition isSubstringOf :: "string \<Rightarrow> string \<Rightarrow> bool" where
  "isSubstringOf t s = str_includes s t"

definition tierHit :: "nat \<Rightarrow> string \<Rightarrow> select_option \<Rightarrow> bool" where
  "tierHit t candidate opt =
     (if t = 1 then candidate = optionValue opt \<or> candidate = textContent opt
      else if t = 2 then toLowerCase candidate = toLowerCase (optionValue opt)
                       \<or> toLowerCase candidate = toLowerCase (textContent opt)
      else if t = 3 then isSubstringOf (toLowerCase candidate) (toLowerCase (optionValue opt))
                       \<or> isSubstringOf (toLowerCase candidate) (toLowerCase (textContent opt))
      else if t = 4 then isSubstringOf (toLowerCase (optionValue opt)) (toLowerCase candidate)
                       \<or> isSubstringOf (toLowerCase (textContent opt)) (toLowerCase candidate)
      else False)"

text \<open>
  The resolution as the specification words it: the first tier with a hit
  wins, and within it the first option in the order of the list.
\<close>

definition firstHit :: "nat \<Rightarrow> string \<Rightarrow> select_option list \<Rightarrow> select_option option" where
  "firstHit t candidate opts = find (tierHit t candidate) opts"

definition resolve :: "string \<Rightarrow> select_option list \<Rightarrow> select_option option" where
  "resolve candidate opts =
     (case filter (\<lambda>t. list_ex (tierHit t candidate) opts) [1, 2, 3, 4] of
        [] \<Rightarrow> None
      | t # _ \<Rightarrow> firstHit t candidate opts)"

section \<open>The state of the application and its surroundings\<close>

text \<open>
  An entry of the patient's appointment history, and the patient record as far
  as the scheduling code reads it; \<open>appointments\<close> may be absent.
\<close>

record appointment =
  date :: string
  provider :: string

record patient =
  appointments :: "appointment list option"

text \<open>
  What the program asks of the clock and of the date library:
  \<open>weekdayOf s\<close> is \<open>new Date(s).toLocaleDateString('en-US', {weekday: 'long'}).toLowerCase()\<close>,
  \<open>parseDate s\<close> the time value of \<open>new Date(s)\<close> (\<open>None\<close> for an invalid date),
  \<open>today\<close> the time value of local midnight of the current day,
  \<open>fiveYearsAgo\<close> that of the current time with the year lowered by five,
  \<open>tomorrow\<close> and \<open>maxDate\<close> the ISO dates of the next day and of the day three
  months ahead, and \<open>formReset\<close> what \<open>form.reset()\<close> does to the page.
\<close>

record env =
  weekdayOf :: "string \<Rightarrow> string"
  parseDate :: "string \<Rightarrow> int option"
  today :: int
  fiveYearsAgo :: int
  tomorrow :: string
  maxDate :: string
  formReset :: "page \<Rightarrow> page"

text \<open>
  The application: the page, the loaded patient, and the weekdays held by the
  date validation listener that \<open>addDateValidation\<close> installs
  (\<open>this.validateDate\<close>).
\<close>

record app =
  form :: page
  currentPatient :: "patient option"
  validateDate :: "string list option"

text \<open>
  What the program reports: the alerts of \<open>showError\<close> and
  \<open>showSuccessMessage\<close>, the notification of updated fields, and of the
  activity log the entry written for a field that has no element. The texts
  are kept as data: \<open>RequiredFields m\<close> is "Please fill in all required
  fields: ..." with the names \<open>m\<close>, \<open>PastDate\<close> is "Appointment date cannot be
  in the past", \<open>NotAvailableOn d w ds\<close> is "\<open>d\<close> is not available on \<open>w\<close>s.
  Available days: \<open>ds\<close>".
\<close>

datatype message =
    RequiredFields "string list"
  | PastDate
  | NotAvailableOn string string "string list"
  | BookingRejected string

datatype event =
    ShowError message
  | ShowSuccess string
  | FieldNotFound string
  | FormUpdateNotification "string list"

datatype error = TypeError

section \<open>Appointment type and location from the provider\<close>

text \<open>\<open>doctorName.split(',')[0]\<close>, the family name.\<close>

definition familyName :: "string \<Rightarrow> string" where
  "familyName doctorName = (case split (CHR '','') doctorName of [] \<Rightarrow> [] | x # _ \<Rightarrow> x)"

text \<open>
  The test of \<open>autoSetAppointmentType\<close>:
  \<open>appointments?.some(apt => apt.provider.includes(family name) && aptDate >= fiveYearsAgo)\<close>.
  A comparison with an invalid date is false.
\<close>

definition hasSeenDoctor :: "env \<Rightarrow> patient \<Rightarrow> string \<Rightarrow> bool" where
  "hasSeenDoctor ev pat doctorName =
     (case appointments pat of
        None \<Rightarrow> False
      | Some apts \<Rightarrow>
          list_ex (\<lambda>apt. str_includes (provider apt) (familyName doctorName)
                     \<and> (case parseDate ev (date apt) of
                          None \<Rightarrow> False
                        | Some aptDate \<Rightarrow> fiveYearsAgo ev \<le> aptDate)) apts)"

definition autoSetAppointmentType :: "env \<Rightarrow> app \<Rightarrow> string \<Rightarrow> app" where
  "autoSetAppointmentType ev a doctorName =
     (case currentPatient a of
        None \<Rightarrow> a
      | Some pat \<Rightarrow>
          a\<lparr>form := (form a)\<lparr>appointment_type :=
               setValue (appointment_type (form a))
                 (if hasSeenDoctor ev pat doctorName then ''ESTABLISHED'' else ''NEW'')\<rparr>\<rparr>)"

text \<open>The duration that \<open>bookAppointment\<close> announces for an appointment type.\<close>

definition duration :: "string \<Rightarrow> string" where
  "duration appointmentType = (if appointmentType = ''NEW'' then ''30'' else ''15'')"

definition doctorLocationMap :: "string \<Rightarrow> string option" where
  "doctorLocationMap = map_of
     [(''Grey, Meredith'', ''Sloan Primary Care''),
      (''Yang, Cristina'', ''Seattle Grace Cardiac Surgery''),
      (''Perry, Chris'', ''Sacred Heart Surgical Department''),
      (''Brennan, Temperance'', ''Jefferson Hospital'')]"

definition autoSetLocation :: "app \<Rightarrow> string \<Rightarrow> app" where
  "autoSetLocation a doctorName =
     (if doctorName = ''House, Gregory''
      then a\<lparr>form := (form a)\<lparr>appointment_location := setValue (appointment_location (form a)) []\<rparr>\<rparr>
      else (case doctorLocationMap doctorName of
              None \<Rightarrow> a
            | Some loc \<Rightarrow>
                if loc \<noteq> []
                then a\<lparr>form := (form a)\<lparr>appointment_location :=
                       setValue (appointment_location (form a)) loc\<rparr>\<rparr>
                else a))"

text \<open>
  \<open>setupDateRestrictions(doctorName)\<close>: nothing for a provider without an
  entry; otherwise the \<open>min\<close> and \<open>max\<close> of the date field and the listener
  for the provider's days. (The help text beside the field is not modelled.)
\<close>

definition setupDateRestrictions :: "env \<Rightarrow> app \<Rightarrow> string \<Rightarrow> app" where
  "setupDateRestrictions ev a doctorName =
     (case doctorAvailability doctorName of
        None \<Rightarrow> a
      | Some availability \<Rightarrow>
          a\<lparr>form := (form a)\<lparr>appointment_date :=
               (appointment_date (form a))\<lparr>attr_min := tomorrow ev, attr_max := maxDate ev\<rparr>\<rparr>,
            validateDate := Some (days_of availability)\<rparr>)"

definition handleDoctorSelection :: "env \<Rightarrow> app \<Rightarrow> app" where
  "handleDoctorSelection ev a =
     (let selectedDoctor = val (doctor (form a)) in
      if selectedDoctor = []
      then a\<lparr>form := (form a)\<lparr>
             appointment_date := setValue ((appointment_date (form a))\<lparr>disabled := True\<rparr>) [],
             appointment_time := setInnerHTML ((appointment_time (form a))\<lparr>disabled := True\<rparr>)
                [\<lparr>optionValue = [], textContent = ''Select time''\<rparr>]\<rparr>\<rparr>
      else
        (let a1 = autoSetAppointmentType ev a selectedDoctor;
             a2 = autoSetLocation a1 selectedDoctor;
             a3 = setupDateRestrictions ev a2 selectedDoctor
         in a3\<lparr>form := (form a3)\<lparr>
              appointment_date := (appointment_date (form a3))\<lparr>disabled := False\<rparr>,
              appointment_time :=
                (setInnerHTML (appointment_time (form a3))
                   [\<lparr>optionValue = [], textContent = ''Select a date first''\<rparr>])\<lparr>disabled := True\<rparr>\<rparr>\<rparr>))"

section \<open>Selecting a date and generating the time slots\<close>

text \<open>
  \<open>generateTimeSlots(doctorName, dayName)\<close>. Reading \<open>schedule\<close> of an entry that
  has none, or \<open>hours\<close> of the first segment of an empty schedule, raises
  \<open>TypeError\<close>.
\<close>

definition firstSegmentHours :: "segment list \<Rightarrow> error + hours" where
  "firstSegmentHours sch = (case sch of [] \<Rightarrow> Inl TypeError | s # _ \<Rightarrow> Inr (hours s))"

definition slotHours :: "availability \<Rightarrow> string \<Rightarrow> string \<Rightarrow> error + hours" where
  "slotHours availability doctorName dayName =
     (if doctorName = ''House, Gregory'' \<and> dayName \<noteq> []
      then (case availability of
              Single s \<Rightarrow> Inl TypeError
            | Split sch ds \<Rightarrow>
                (case scheduleForDay sch dayName of
                   Some s \<Rightarrow> Inr (hours s)
                 | None \<Rightarrow> firstSegmentHours sch))
      else (case availability of
              Single s \<Rightarrow> Inr (hours s)
            | Split sch ds \<Rightarrow> firstSegmentHours sch))"

definition slotOption :: "string \<Rightarrow> select_option" where
  "slotOption slot = \<lparr>optionValue = slot, textContent = slot\<rparr>"

definition generateTimeSlots :: "app \<Rightarrow> string \<Rightarrow> string \<Rightarrow> error + app" where
  "generateTimeSlots a doctorName dayName =
     (case doctorAvailability doctorName of
        None \<Rightarrow> Inr a
      | Some availability \<Rightarrow>
          (let timeSelect = setInnerHTML (appointment_time (form a))
                              [\<lparr>optionValue = [], textContent = ''Select time''\<rparr>]
           in case slotHours availability doctorName dayName of
                Inl e \<Rightarrow> Inl e
              | Inr h \<Rightarrow>
                  (let slots = timeSlots (parseTime (start h)) (parseTime (finish h));
                       timeSelect' = foldl appendChild timeSelect (map slotOption slots)
                   in Inr (a\<lparr>form := (form a)\<lparr>appointment_time := timeSelect'\<lparr>disabled := False\<rparr>\<rparr>\<rparr>))))"

text \<open>
  \<open>handleDateSelection()\<close>. It returns the application and what it reported.
  Reading \<open>days\<close> of a provider that has no entry raises \<open>TypeError\<close>.
\<close>

definition handleDateSelection :: "env \<Rightarrow> app \<Rightarrow> error + app \<times> event list" where
  "handleDateSelection ev a =
     (let selectedDoctor = val (doctor (form a));
          selectedDate = val (appointment_date (form a))
      in if selectedDoctor = [] \<or> selectedDate = [] then Inr (a, [])
         else
          (let dayName = weekdayOf ev selectedDate
           in case doctorAvailability selectedDoctor of
                None \<Rightarrow> Inl TypeError
              | Some availability \<Rightarrow>
                  if dayName \<notin> set (days_of availability)
                  then Inr (a\<lparr>form := (form a)\<lparr>
                              appointment_date := setValue (appointment_date (form a)) [],
                              appointment_time := (appointment_time (form a))\<lparr>disabled := True\<rparr>\<rparr>\<rparr>,
                            [ShowError (NotAvailableOn selectedDoctor dayName (days_of availability))])
                  else
                   (case (if selectedDoctor = ''House, Gregory''
                          then (case availability of
                                  Single s \<Rightarrow> Inl TypeError
                                | Split sch ds \<Rightarrow>
                                    (case scheduleForDay sch dayName of
                                       None \<Rightarrow> Inr a
                                     | Some s \<Rightarrow>
                                         Inr (a\<lparr>form := (form a)\<lparr>appointment_location :=
                                                setValue (appointment_location (form a)) (location s)\<rparr>\<rparr>)))
                          else Inr a) of
                      Inl e \<Rightarrow> Inl e
                    | Inr a1 \<Rightarrow>
                        (case generateTimeSlots a1 selectedDoctor dayName of
                           Inl e \<Rightarrow> Inl e
                         | Inr a2 \<Rightarrow> Inr (a2, [])))))"

section \<open>Validation at submission\<close>

text \<open>
  \<open>getAppointmentFormData()\<close> reads the eight fields into an object, the names
  trimmed. \<open>validateAppointmentForm(data)\<close> returns a Boolean and reports.
\<close>

definition getAppointmentFormData :: "app \<Rightarrow> (string \<rightharpoonup> string)" where
  "getAppointmentFormData a = map_of
     [(''firstName'', trim (val (first_name (form a)))),
      (''lastName'', trim (val (last_name (form a)))),
      (''dob'', val (dob (form a))),
      (''doctor'', val (doctor (form a))),
      (''appointmentType'', val (appointment_type (form a))),
      (''location'', val (appointment_location (form a))),
      (''date'', val (appointment_date (form a))),
      (''time'', val (appointment_time (form a)))]"

definition required :: "string list" where
  "required = [''firstName'', ''lastName'', ''dob'', ''doctor'', ''appointmentType'',
               ''location'', ''date'', ''time'']"

text \<open>
  \<open>appointmentDate < today\<close>, with \<open>appointmentDate = new Date(data.date)\<close>;
  false for an invalid date.
\<close>

definition beforeToday :: "env \<Rightarrow> string option \<Rightarrow> bool" where
  "beforeToday ev d =
     (case d of
        None \<Rightarrow> False
      | Some s \<Rightarrow> (case parseDate ev s of None \<Rightarrow> False | Some appointmentDate \<Rightarrow> appointmentDate < today ev))"

definition validateAppointmentForm :: "env \<Rightarrow> (string \<rightharpoonup> string) \<Rightarrow> bool \<times> event list" where
  "validateAppointmentForm ev formData =
     (let missing = filter (\<lambda>field. \<not> truthy (formData field)) required
      in if length missing > 0 then (False, [ShowError (RequiredFields missing)])
         else if beforeToday ev (formData ''date'') then (False, [ShowError PastDate])
         else (True, []))"

text \<open>
  \<open>clearAppointmentForm()\<close> and \<open>bookAppointment()\<close>; \<open>response\<close> is the answer of
  the booking service: an appointment id, or the reason of a refusal. (The line
  added to the chat after a booking is not modelled.)
\<close>

definition clearAppointmentForm :: "env \<Rightarrow> app \<Rightarrow> app" where
  "clearAppointmentForm ev a =
     (let p = formReset ev (form a)
      in a\<lparr>form := p\<lparr>
           appointment_date := (appointment_date p)\<lparr>disabled := True\<rparr>,
           appointment_time := setInnerHTML ((appointment_time p)\<lparr>disabled := True\<rparr>)
              [\<lparr>optionValue = [], textContent = ''Select time''\<rparr>]\<rparr>\<rparr>)"

definition bookAppointment :: "env \<Rightarrow> string + string \<Rightarrow> app \<Rightarrow> app \<times> event list" where
  "bookAppointment ev response a =
     (let formData = getAppointmentFormData a;
          (ok, reported) = validateAppointmentForm ev formData
      in if \<not> ok then (a, reported)
         else (case response of
                 Inr appointmentId \<Rightarrow> (clearAppointmentForm ev a, reported @ [ShowSuccess appointmentId])
               | Inl reason \<Rightarrow> (a, reported @ [ShowError (BookingRejected reason)])))"

section \<open>Applying a batch of updates\<close>

text \<open>
  \<open>updateAppointmentForm(formUpdates)\<close>. The batch is the list
  \<open>Object.entries(formUpdates)\<close> of field names and proposed strings, and
  \<open>formUpdates[k]\<close> is \<open>map_of formUpdates k\<close>. The first pass keeps the page,
  the list \<open>updatedFields\<close> and the two flags.
\<close>

record pass =
  page_of :: page
  updatedFields :: "string list"
  needsDoctorHandler :: bool
  needsDateHandler :: bool

text \<open>The assignment the first pass makes to the element of a field.\<close>

definition assignField :: "string \<Rightarrow> element \<Rightarrow> string \<Rightarrow> element" where
  "assignField field element v =
     (let e1 =
        (if tagName element = ''SELECT'' \<and> (field = ''appointment-location'' \<or> field = ''doctor'')
         then (case findMatchingOption element v of
                 Some matchedOption \<Rightarrow> setValue element (optionValue matchedOption)
               | None \<Rightarrow> setValue element v)
         else if field = ''appointment-date''
         then setValue (if disabled element then element\<lparr>disabled := False\<rparr> else element) v
         else setValue element v)
      in if field = ''appointment-time'' \<and> disabled e1 then e1\<lparr>disabled := False\<rparr> else e1)"

definition updateField :: "string \<times> string \<Rightarrow> pass \<Rightarrow> pass \<times> event list" where
  "updateField entry ps =
     (case entry of (field, v) \<Rightarrow>
        (case getElementById (page_of ps) field of
           None \<Rightarrow> (ps, [FieldNotFound field])
         | Some element \<Rightarrow>
             (ps\<lparr>page_of := putElement (page_of ps) field (assignField field element v),
                 updatedFields := updatedFields ps @ [field],
                 needsDoctorHandler := (if field = ''doctor'' then True else needsDoctorHandler ps),
                 needsDateHandler :=
                   (if field = ''doctor'' then needsDateHandler ps
                    else if field = ''appointment-date'' then True else needsDateHandler ps)\<rparr>,
              [])))"

fun firstPass :: "(string \<times> string) list \<Rightarrow> pass \<Rightarrow> pass \<times> event list" where
  "firstPass [] ps = (ps, [])"
| "firstPass (entry # rest) ps =
     (case updateField entry ps of (ps1, r1) \<Rightarrow>
        (case firstPass rest ps1 of (ps2, r2) \<Rightarrow> (ps2, r1 @ r2)))"

text \<open>The second pass: the provider's handler or its replacement, then the date's handler.\<close>

definition doctorPass :: "env \<Rightarrow> (string \<times> string) list \<Rightarrow> bool \<Rightarrow> app \<Rightarrow> app" where
  "doctorPass ev formUpdates needsDoctor a =
     (if needsDoctor \<and> \<not> truthy (map_of formUpdates ''appointment-location'')
      then handleDoctorSelection ev a
      else if needsDoctor
      then (if val (doctor (form a)) \<noteq> []
            then (let a1 = setupDateRestrictions ev a (val (doctor (form a)))
                  in a1\<lparr>form := (form a1)\<lparr>appointment_date :=
                          (appointment_date (form a1))\<lparr>disabled := False\<rparr>\<rparr>\<rparr>)
            else a)
      else a)"

definition datePass :: "env \<Rightarrow> (string \<times> string) list \<Rightarrow> bool \<Rightarrow> app \<Rightarrow> error + app \<times> event list" where
  "datePass ev formUpdates needsDate a =
     (if needsDate
      then (let aiSetTime = map_of formUpdates ''appointment-time''
            in case handleDateSelection ev a of
                 Inl e \<Rightarrow> Inl e
               | Inr (a1, r) \<Rightarrow>
                   (case aiSetTime of
                      None \<Rightarrow> Inr (a1, r)
                    | Some t \<Rightarrow>
                        if t \<noteq> []
                        then Inr (a1\<lparr>form := (form a1)\<lparr>appointment_time :=
                                    setValue (appointment_time (form a1)) t\<rparr>\<rparr>, r)
                        else Inr (a1, r)))
      else Inr (a, []))"

text \<open>The state in which the first pass starts: nothing updated, no handler needed.\<close>

definition startPass :: "app \<Rightarrow> pass" where
  "startPass a =
     \<lparr>page_of = form a, updatedFields = [],
      needsDoctorHandler = False, needsDateHandler = False\<rparr>"

definition updateAppointmentForm ::
  "env \<Rightarrow> (string \<times> string) list \<Rightarrow> app \<Rightarrow> error + app \<times> event list" where
  "updateAppointmentForm ev formUpdates a =
     (case firstPass formUpdates (startPass a) of
        (ps, r1) \<Rightarrow>
          (case datePass ev formUpdates (needsDateHandler ps)
                  (doctorPass ev formUpdates (needsDoctorHandler ps) (a\<lparr>form := page_of ps\<rparr>)) of
             Inl e \<Rightarrow> Inl e
           | Inr (a2, r2) \<Rightarrow>
               Inr (a2, r1 @ r2 @
                    (if length (updatedFields ps) > 0
                     then [FormUpdateNotification (updatedFields ps)] else []))))"

section \<open>Strings in the form HH:MM, and an example page\<close>

text \<open>A zero-padded time string with the hours in 00..23 and the minutes in 00..59.\<close>

definition isHHMM :: "string \<Rightarrow> bool" where
  "isHHMM s =
     (case s of
        [a, b, sep, c, d] \<Rightarrow>
          sep = CHR '':'' \<and> isDigit a \<and> isDigit b \<and> isDigit c \<and> isDigit d
          \<and> 10 * digitVal a + digitVal b \<le> 23 \<and> 10 * digitVal c + digitVal d \<le> 59
      | _ \<Rightarrow> False)"

text \<open>
  A page on which the definitions can be run: the five providers and their
  locations as options, each select with an empty first option, the date and
  time fields disabled as after \<open>clearAppointmentForm\<close>. The example clock
  stands at the first of January 2030; the third of June 2030 is a Monday and
  the eighth a Saturday.
\<close>

definition placeholder :: "string \<Rightarrow> select_option" where
  "placeholder label = \<lparr>optionValue = [], textContent = label\<rparr>"

definition exampleSelect :: "string \<Rightarrow> string list \<Rightarrow> element" where
  "exampleSelect label vs =
     \<lparr>kind = Select (placeholder label # map slotOption vs), val = [],
      disabled = False, attr_min = [], attr_max = []\<rparr>"

definition exampleInput :: "string \<Rightarrow> element" where
  "exampleInput v =
     \<lparr>kind = Input ''text'', val = v, disabled = False, attr_min = [], attr_max = []\<rparr>"

definition exampleDatePicker :: "string \<Rightarrow> element" where
  "exampleDatePicker v =
     \<lparr>kind = Input ''date'', val = v, disabled = False, attr_min = [], attr_max = []\<rparr>"

definition examplePage :: page where
  "examplePage =
     \<lparr>first_name = exampleInput ''John'', last_name = exampleInput ''Doe'',
      dob = exampleDatePicker ''1975-01-01'',
      doctor = exampleSelect ''Select a doctor''
        [''Grey, Meredith'', ''House, Gregory'', ''Yang, Cristina'', ''Perry, Chris'',
         ''Brennan, Temperance''],
      appointment_type = exampleSelect ''Select type'' [''NEW'', ''ESTABLISHED''],
      appointment_location = exampleSelect ''Select location''
        [''Sloan Primary Care'', ''PPTH Orthopedics'', ''Jefferson Hospital'',
         ''Seattle Grace Cardiac Surgery'', ''Sacred Heart Surgical Department''],
      appointment_date = (exampleDatePicker [])\<lparr>disabled := True\<rparr>,
      appointment_time = (exampleSelect ''Select time'' [])\<lparr>disabled := True\<rparr>,
      others = Map.empty\<rparr>"

definition exampleEnv :: env where
  "exampleEnv =
     \<lparr>weekdayOf = (\<lambda>s. if s = ''2030-06-03'' then ''monday''
                      else if s = ''2030-06-08'' then ''saturday'' else ''invalid date''),
      parseDate = (\<lambda>s. if s = ''2030-06-03'' then Some 1906675200000
                      else if s = ''2030-06-08'' then Some 1907107200000
                      else if s = ''2029-12-31'' then Some 1893369600000
                      else if s = ''1/10/26'' then Some 1768003200000
                      else if s = ''3/05/18'' then Some 1520208000000 else None),
      today = 1893456000000, fiveYearsAgo = 1735689600000,
      tomorrow = ''2030-01-02'', maxDate = ''2030-04-01'',
      formReset = (\<lambda>p. examplePage)\<rparr>"

definition examplePatient :: patient where
  "examplePatient =
     \<lparr>appointments = Some
        [\<lparr>date = ''3/05/18'', provider = ''Dr. Meredith Grey''\<rparr>,
         \<lparr>date = ''1/10/26'', provider = ''Dr. Gregory House''\<rparr>]\<rparr>"

definition exampleApp :: app where
  "exampleApp = \<lparr>form = examplePage, currentPatient = Some examplePatient, validateDate = None\<rparr>"

text \<open>The example page with a provider selected by hand.\<close>

definition exampleAppWith :: "string \<Rightarrow> app" where
  "exampleAppWith doctorName =
     handleDoctorSelection exampleEnv
       (exampleApp\<lparr>form := examplePage\<lparr>doctor := setValue (doctor examplePage) doctorName\<rparr>\<rparr>)"


definition exampleAppUnlisted :: app where
  "exampleAppUnlisted = exampleApp\<lparr>form := examplePage\<lparr>doctor := exampleInput ''Who, Doctor''\<rparr>\<rparr>"

definition patientWithoutHistory :: patient where
  "patientWithoutHistory = \<lparr>appointments = None\<rparr>"

text \<open>The example page with the input of the chat beside the form.\<close>

definition exampleAppChat :: app where
  "exampleAppChat =
     exampleApp\<lparr>form := examplePage\<lparr>others := [''chat-input'' \<mapsto> exampleInput []]\<rparr>\<rparr>"

text \<open>
  The history of a patient as a list, empty when \<open>appointments\<close> is absent, and
  a select that offers the single option of the specification's example.
\<close>

definition history :: "patient \<Rightarrow> appointment list" where
  "history pat = (case appointments pat of None \<Rightarrow> [] | Some apts \<Rightarrow> apts)"

definition jeffersonSelect :: element where
  "jeffersonSelect =
     \<lparr>kind = Select [slotOption ''Jefferson Hospital''], val = [],
      disabled = False, attr_min = [], attr_max = []\<rparr>"

text \<open>A filled form as \<open>getAppointmentFormData\<close> returns it, with the date left open.\<close>

definition exampleData :: "string \<Rightarrow> (string \<rightharpoonup> string)" where
  "exampleData d = map_of
     [(''firstName'', ''John''), (''lastName'', ''Doe''), (''dob'', ''1975-01-01''),
      (''doctor'', ''Grey, Meredith''), (''appointmentType'', ''NEW''),
      (''location'', ''Sloan Primary Care''), (''date'', d), (''time'', ''09:30'')]"

text \<open>
  The time field after \<open>generateTimeSlots\<close> has rebuilt it for the hours \<open>h\<close>:
  the empty first option, then one option for each slot.
\<close>

definition regenerated :: "element \<Rightarrow> hours \<Rightarrow> element" where
  "regenerated timeSelect h =
     (foldl appendChild
        (setInnerHTML timeSelect [\<lparr>optionValue = [], textContent = ''Select time''\<rparr>])
        (map slotOption (timeSlots (parseTime (start h)) (parseTime (finish h)))))
     \<lparr>disabled := False\<rparr>"

section \<open>Elements\<close>

lemma tagName_update [simp]:
  "tagName (e\<lparr>val := x\<rparr>) = tagName e" "tagName (e\<lparr>disabled := b\<rparr>) = tagName e"
  "tagName (e\<lparr>attr_min := x\<rparr>) = tagName e" "tagName (e\<lparr>attr_max := x\<rparr>) = tagName e"
  by (simp_all add: tagName_def)

lemma options_update [simp]:
  "options (e\<lparr>val := x\<rparr>) = options e" "options (e\<lparr>disabled := b\<rparr>) = options e"
  "options (e\<lparr>attr_min := x\<rparr>) = options e" "options (e\<lparr>attr_max := x\<rparr>) = options e"
  by (simp_all add: options_def)

lemma tagName_setValue [simp]: "tagName (setValue e v) = tagName e"
  by (cases "kind e") (simp_all add: setValue_def tagName_def)

lemma options_setValue [simp]: "options (setValue e v) = options e"
  by (cases "kind e") (simp_all add: setValue_def options_def)

lemma setValue_keeps [simp]:
  "attr_min (setValue e v) = attr_min e" "attr_max (setValue e v) = attr_max e"
  "disabled (setValue e v) = disabled e"
  by (cases "kind e"; simp add: setValue_def)+


lemma val_setValue_member:
  "v \<in> set (map optionValue (options e)) \<Longrightarrow> val (setValue e v) = v"
  by (cases "kind e") (simp_all add: setValue_def options_def)

lemma val_setValue_select:
  "tagName e = ''SELECT'' \<Longrightarrow>
   val (setValue e v) = (if v \<in> set (map optionValue (options e)) then v else [])"
  by (cases "kind e") (simp_all add: setValue_def tagName_def options_def)

lemma setValue_date_string:
  "tagName e \<noteq> ''SELECT'' \<Longrightarrow> isDateString v \<Longrightarrow> setValue e v = e\<lparr>val := v\<rparr>"
  by (cases "kind e") (simp_all add: setValue_def tagName_def)

lemma isDateString_nonempty: "isDateString s \<Longrightarrow> s \<noteq> []"
  by (auto simp add: isDateString_def)

lemma isDateString_examples:
  "isDateString ''2030-06-03''" "isDateString ''2028-02-29''"
  "\<not> isDateString ''2030-02-29''" "\<not> isDateString ''2030-6-3''"
  "\<not> isDateString ''06/03/2030''" "\<not> isDateString ''2030-13-01''"
  "\<not> isDateString ''next Monday''" "\<not> isDateString []"
  by code_simp+

lemma setInnerHTML_keeps [simp]:
  "tagName (setInnerHTML e opts) = tagName e" "disabled (setInnerHTML e opts) = disabled e"
  by (cases "kind e"; simp add: setInnerHTML_def tagName_def)+

lemma options_setInnerHTML:
  "tagName e = ''SELECT'' \<Longrightarrow> options (setInnerHTML e opts) = opts"
  by (cases "kind e") (simp_all add: setInnerHTML_def tagName_def options_def)

lemma appendChild_keeps [simp]:
  "tagName (appendChild e opt) = tagName e" "disabled (appendChild e opt) = disabled e"
  by (cases "kind e"; simp add: appendChild_def tagName_def)+

lemma options_appendChild:
  "tagName e = ''SELECT'' \<Longrightarrow> options (appendChild e opt) = options e @ [opt]"
  by (cases "kind e") (simp_all add: appendChild_def tagName_def options_def)

lemma foldl_appendChild_keeps [simp]:
  "tagName (foldl appendChild e opts) = tagName e"
  "disabled (foldl appendChild e opts) = disabled e"
  by (induction opts arbitrary: e) simp_all

lemma options_foldl_appendChild:
  "tagName e = ''SELECT'' \<Longrightarrow> options (foldl appendChild e opts) = options e @ opts"
  by (induction opts arbitrary: e) (simp_all add: options_appendChild)

section \<open>Parsing and printing times\<close>

lemma of_char_digitChar: "d < 10 \<Longrightarrow> (of_char (digitChar d) :: nat) = 48 + d"
  by (simp add: digitChar_def)

lemma isDigit_digitChar: "d < 10 \<Longrightarrow> isDigit (digitChar d)"
  by (simp add: isDigit_def of_char_digitChar)

lemma digitVal_digitChar: "d < 10 \<Longrightarrow> digitVal (digitChar d) = d"
  by (simp add: digitVal_def of_char_digitChar)

lemma isDigit_not_colon: "isDigit c \<Longrightarrow> c \<noteq> CHR '':''"
  by (auto simp add: isDigit_def)

lemma digitChar_digitVal: "isDigit c \<Longrightarrow> digitChar (digitVal c) = c"
  by (simp add: isDigit_def digitVal_def digitChar_def)

lemma digitVal_less: "isDigit c \<Longrightarrow> digitVal c < 10"
  by (auto simp add: isDigit_def digitVal_def)

lemma digitChar_0: "digitChar 0 = CHR ''0''"
  by code_simp

lemma pad_two_digits:
  assumes "n < 100"
  shows "padStart2 (toString (int n)) = [digitChar (n div 10), digitChar (n mod 10)]"
proof (cases "n < 10")
  case True
  then show ?thesis
    by (simp add: padStart2_def toString_def natToString.simps [of n] digitChar_0)
next
  case False
  with assms have "n div 10 < 10" by simp
  with False show ?thesis
    by (simp add: padStart2_def toString_def natToString.simps [of n]
        natToString.simps [of "n div 10"])
qed

lemma Number_two_digits:
  "isDigit a \<Longrightarrow> isDigit b \<Longrightarrow> Number [a, b] = Some (int (10 * digitVal a + digitVal b))"
  by (simp add: Number_def)

lemma split_hhmm:
  "a \<noteq> CHR '':'' \<Longrightarrow> b \<noteq> CHR '':'' \<Longrightarrow> c \<noteq> CHR '':'' \<Longrightarrow> d \<noteq> CHR '':'' \<Longrightarrow>
   split (CHR '':'') ([a, b] @ '':'' @ [c, d]) = [[a, b], [c, d]]"
  by simp

lemma parseTime_two_two:
  assumes "isDigit a" "isDigit b" "isDigit c" "isDigit d"
  shows "parseTime ([a, b] @ '':'' @ [c, d]) =
    Some (int (10 * digitVal a + digitVal b) * 60 + int (10 * digitVal c + digitVal d))"
  unfolding parseTime_def
  by (simp only: split_hhmm [OF assms [THEN isDigit_not_colon]] list.map
      Number_two_digits [OF assms(1,2)] Number_two_digits [OF assms(3,4)] list.case option.case)

lemma formatTime_nat:
  "formatTime (int n) =
     padStart2 (toString (int (n div 60))) @ '':'' @ padStart2 (toString (int (n mod 60)))"
proof -
  have "js_rem (int n) 60 = int (n mod 60)"
    by (simp add: js_rem_def zmod_int sgn_if)
  moreover have "int n div 60 = int (n div 60)"
    by (simp add: zdiv_int)
  ultimately show ?thesis
    by (simp only: formatTime_def Let_def)
qed

lemma parse_format_nat:
  assumes "n \<le> 1439"
  shows "parseTime (formatTime (int n)) = Some (int n)"
proof -
  have h: "n div 60 < 100" using assms by simp
  have r: "n mod 60 < 100" by (rule less_trans [of _ 60]) simp_all
  have d: "isDigit (digitChar (n div 60 div 10))" "isDigit (digitChar (n div 60 mod 10))"
    "isDigit (digitChar (n mod 60 div 10))" "isDigit (digitChar (n mod 60 mod 10))"
    using assms by (simp_all add: isDigit_digitChar)
  have v: "digitVal (digitChar (n div 60 div 10)) = n div 60 div 10"
    "digitVal (digitChar (n div 60 mod 10)) = n div 60 mod 10"
    "digitVal (digitChar (n mod 60 div 10)) = n mod 60 div 10"
    "digitVal (digitChar (n mod 60 mod 10)) = n mod 60 mod 10"
    using assms by (simp_all add: digitVal_digitChar)
  have "parseTime (formatTime (int n)) =
      Some (int (10 * (n div 60 div 10) + n div 60 mod 10) * 60
            + int (10 * (n mod 60 div 10) + n mod 60 mod 10))"
    by (simp only: formatTime_nat pad_two_digits [OF h] pad_two_digits [OF r]
        parseTime_two_two [OF d] v)
  also have "10 * (n div 60 div 10) + n div 60 mod 10 = n div 60" by simp
  also have "10 * (n mod 60 div 10) + n mod 60 mod 10 = n mod 60" by simp
  finally have "parseTime (formatTime (int n)) = Some (int (n div 60) * 60 + int (n mod 60))" .
  moreover have "int (n div 60 * 60 + n mod 60) = int n" by simp
  then have "int (n div 60) * 60 + int (n mod 60) = int n"
    by (simp only: of_nat_add of_nat_mult of_nat_numeral)
  ultimately show ?thesis by (simp only:)
qed

lemma isHHMM_D:
  assumes "isHHMM s"
  obtains a b c d where "s = [a, b] @ '':'' @ [c, d]"
    "isDigit a" "isDigit b" "isDigit c" "isDigit d"
    "10 * digitVal a + digitVal b \<le> 23" "10 * digitVal c + digitVal d \<le> 59"
  using assms unfolding isHHMM_def
  by (auto split: list.splits)

lemma format_parse:
  assumes "isHHMM s"
  shows "map_option formatTime (parseTime s) = Some s"
proof -
  from assms obtain a b c d where s: "s = [a, b] @ '':'' @ [c, d]"
    and dg: "isDigit a" "isDigit b" "isDigit c" "isDigit d"
    and hb: "10 * digitVal a + digitVal b \<le> 23" and mb: "10 * digitVal c + digitVal d \<le> 59"
    by (rule isHHMM_D)
  define h where "h = 10 * digitVal a + digitVal b"
  define m where "m = 10 * digitVal c + digitVal d"
  have lt: "digitVal a < 10" "digitVal b < 10" "digitVal c < 10" "digitVal d < 10"
    using dg by (simp_all add: digitVal_less)
  have p: "parseTime s = Some (int (h * 60 + m))"
    unfolding s h_def m_def
    by (simp only: parseTime_two_two [OF dg] of_nat_add of_nat_mult of_nat_numeral)
  have hq: "(h * 60 + m) div 60 = h" and mq: "(h * 60 + m) mod 60 = m"
    using mb by (simp_all add: m_def)
  have h100: "h < 100" and m100: "m < 100" using hb mb by (simp_all add: h_def m_def)
  have hd: "h div 10 = digitVal a" "h mod 10 = digitVal b" using lt by (simp_all add: h_def)
  have md: "m div 10 = digitVal c" "m mod 10 = digitVal d" using lt by (simp_all add: m_def)
  have "formatTime (int (h * 60 + m)) = s"
    unfolding formatTime_nat hq mq pad_two_digits [OF h100] pad_two_digits [OF m100] hd md s
    using dg by (simp add: digitChar_digitVal)
  with p show ?thesis by simp
qed

text \<open>
  Claim C10. Parsing and printing times are inverse to each other: for every
  whole number \<open>m\<close> of minutes from 0 to 1439, parsing the printed time gives
  \<open>m\<close> back, and for every zero-padded string HH:MM with hours 00..23 and
  minutes 00..59, printing the parsed time gives the string back.
\<close>

theorem parseTime_formatTime_inverse:
  "(0 \<le> m \<and> m \<le> 1439 \<longrightarrow> parseTime (formatTime m) = Some m)
   \<and> (isHHMM s \<longrightarrow> map_option formatTime (parseTime s) = Some s)"
proof -
  have "parseTime (formatTime m) = Some m" if "0 \<le> m" "m \<le> 1439"
  proof -
    from that have "nat m \<le> 1439" by simp
    then have "parseTime (formatTime (int (nat m))) = Some (int (nat m))"
      by (rule parse_format_nat)
    with that show ?thesis by simp
  qed
  then show ?thesis by (simp add: format_parse)
qed

theorem parseTime_formatTime_inverse_witness:
  "parseTime (formatTime 570) = Some 570
   \<and> isHHMM ''09:30'' \<and> map_option formatTime (parseTime ''09:30'') = Some ''09:30''"
proof -
  have h: "isHHMM ''09:30''" by code_simp
  have b: "(0::int) \<le> 570 \<and> (570::int) \<le> 1439" by simp
  from parseTime_formatTime_inverse [of 570 "''09:30''"] h b show ?thesis by blast
qed

section \<open>The sequence of time slots\<close>

lemma slotTimes_eq:
  "slotTimes s e = map (\<lambda>k. s + 30 * int k) [0..<nat (- ((s - e) div 30))]"
proof (induction s e rule: slotTimes.induct)
  case (1 s e)
  show ?case
  proof (cases "s < e")
    case True
    then have n: "nat (- ((s - e) div 30)) = Suc (nat (- ((s + 30 - e) div 30)))"
      by simp
    have "slotTimes s e = s # slotTimes (s + 30) e"
      using True by (simp add: slotTimes.simps [of s e])
    also have "\<dots> = s # map (\<lambda>k. s + 30 + 30 * int k) [0..<nat (- ((s + 30 - e) div 30))]"
      using 1 True by simp
    also have "\<dots> = map (\<lambda>k. s + 30 * int k) [0..<Suc (nat (- ((s + 30 - e) div 30)))]"
      by (simp add: upt_rec [of 0] map_Suc_upt [symmetric] del: upt_Suc)
    finally show ?thesis by (simp only: n)
  next
    case False
    then have "nat (- ((s - e) div 30)) = 0" by simp
    with False show ?thesis by (simp add: slotTimes.simps [of s e])
  qed
qed

lemma slotTimes_bounds:
  assumes "t \<in> set (slotTimes s e)"
  shows "s \<le> t \<and> t < e"
proof -
  from assms obtain k where k: "t = s + 30 * int k" "k < nat (- ((s - e) div 30))"
    by (auto simp add: slotTimes_eq)
  define q where "q = (s - e) div 30"
  define r where "r = (s - e) mod 30"
  from k have "int k + 1 \<le> - q" by (simp add: q_def)
  moreover have "s - e = 30 * q + r" by (simp add: q_def r_def)
  moreover have "r < 30" by (simp add: r_def)
  ultimately have "s - e < - 30 * int k" by linarith
  with k show ?thesis by simp
qed

text \<open>
  Claim C4, as stated, fails for a segment whose length is not a multiple of
  the interval: from 09:00 to 09:45 the loop emits 09:00 and 09:30, two slots,
  where the rounded-down quotient is one.
\<close>

theorem slot_count_floor_counterexample:
  "\<not> (\<forall>startTime endTime. \<not> 30 dvd (endTime - startTime) \<longrightarrow>
        length (timeSlots (Some startTime) (Some endTime)) = nat ((endTime - startTime) div 30))"
proof
  assume "\<forall>startTime endTime. \<not> 30 dvd (endTime - startTime) \<longrightarrow>
        length (timeSlots (Some startTime) (Some endTime)) = nat ((endTime - startTime) div 30)"
  then have "\<not> 30 dvd ((585::int) - 540) \<longrightarrow>
      length (timeSlots (Some 540) (Some 585)) = nat ((585 - 540) div 30)"
    by blast
  moreover have "timeSlots (Some 540) (Some 585) = [''09:00'', ''09:30'']" by code_simp
  ultimately show False by simp
qed

text \<open>
  Claim C4, amended. Slot generation starts at the segment's start and emits a
  slot every 30 minutes while the current time is strictly less than the end;
  the sequence has the rounded-up quotient of the segment's length by 30 as
  its number of slots in every case (the exact quotient when 30 divides the
  length), every emitted time lies from the start up to, not including, the
  end, and the sequence is empty when the start is not before the end.
\<close>

theorem slot_sequence:
  "timeSlots (Some startTime) (Some endTime) =
     map (\<lambda>k. formatTime (startTime + 30 * int k)) [0..<nat (- ((startTime - endTime) div 30))]
   \<and> length (timeSlots (Some startTime) (Some endTime)) = nat (- ((startTime - endTime) div 30))
   \<and> (30 dvd (endTime - startTime) \<and> startTime < endTime \<longrightarrow>
        length (timeSlots (Some startTime) (Some endTime)) = nat ((endTime - startTime) div 30))
   \<and> (\<forall>t \<in> set (slotTimes startTime endTime). startTime \<le> t \<and> t < endTime)
   \<and> (endTime \<le> startTime \<longrightarrow> timeSlots (Some startTime) (Some endTime) = [])"
proof -
  have 1: "timeSlots (Some startTime) (Some endTime) =
     map (\<lambda>k. formatTime (startTime + 30 * int k)) [0..<nat (- ((startTime - endTime) div 30))]"
    by (simp add: timeSlots_def slotTimes_eq comp_def)
  have 2: "length (timeSlots (Some startTime) (Some endTime)) = nat (- ((startTime - endTime) div 30))"
    by (simp add: 1)
  have 3: "30 dvd (endTime - startTime) \<and> startTime < endTime \<longrightarrow>
      nat (- ((startTime - endTime) div 30)) = nat ((endTime - startTime) div 30)"
    by (auto elim!: dvdE)
  have 4: "\<forall>t \<in> set (slotTimes startTime endTime). startTime \<le> t \<and> t < endTime"
    using slotTimes_bounds by blast
  have 5: "endTime \<le> startTime \<longrightarrow> timeSlots (Some startTime) (Some endTime) = []"
    by (simp add: 1)
  from 1 2 3 4 5 show ?thesis by (simp only: simp_thms)
qed

theorem slot_sequence_witness:
  "timeSlots (Some 540) (Some 600) = [''09:00'', ''09:30'']
   \<and> length (timeSlots (Some 540) (Some 600)) = 2
   \<and> 30 dvd ((600::int) - 540) \<and> (540::int) < 600
   \<and> 570 \<in> set (slotTimes 540 600) \<and> (540::int) \<le> 570 \<and> (570::int) < 600
   \<and> timeSlots (Some 600) (Some 540) = []"
proof -
  have a: "570 \<in> set (slotTimes 540 600)" by code_simp
  have b: "map (\<lambda>k. formatTime (540 + 30 * int k)) [0..<nat (- (((540::int) - 600) div 30))]
      = [''09:00'', ''09:30'']" by code_simp
  from slot_sequence [of 540 600] slot_sequence [of 600 540] a b show ?thesis by simp
qed

section \<open>The four tiers of the matcher\<close>

lemma startsWith_iff: "startsWith s t \<longleftrightarrow> (\<exists>post. s = t @ post)"
  by (induction s t rule: startsWith.induct) auto

lemma str_includes_iff: "str_includes s t \<longleftrightarrow> (\<exists>pre post. s = pre @ t @ post)"
proof (induction s)
  case Nil
  show ?case by auto
next
  case (Cons x s)
  have "(\<exists>pre post. x # s = pre @ t @ post) \<longleftrightarrow>
        (\<exists>post. x # s = t @ post) \<or> (\<exists>pre post. s = pre @ t @ post)"
  proof
    assume "\<exists>pre post. x # s = pre @ t @ post"
    then obtain pre post where e: "x # s = pre @ t @ post" by blast
    show "(\<exists>post. x # s = t @ post) \<or> (\<exists>pre post. s = pre @ t @ post)"
    proof (cases pre)
      case Nil
      with e show ?thesis by auto
    next
      case (Cons y pre')
      with e have "s = pre' @ t @ post" by simp
      then show ?thesis by blast
    qed
  next
    assume "(\<exists>post. x # s = t @ post) \<or> (\<exists>pre post. s = pre @ t @ post)"
    then show "\<exists>pre post. x # s = pre @ t @ post"
    proof
      assume "\<exists>post. x # s = t @ post"
      then obtain post where "x # s = [] @ t @ post" by auto
      then show ?thesis by blast
    next
      assume "\<exists>pre post. s = pre @ t @ post"
      then obtain pre post where "x # s = (x # pre) @ t @ post" by auto
      then show ?thesis by blast
    qed
  qed
  with Cons show ?case by (simp add: startsWith_iff del: startsWith.simps)
qed

lemma findMatchingOption_firstHit:
  "findMatchingOption selectElement candidate =
     (case firstHit 1 candidate (options selectElement) of Some m \<Rightarrow> Some m | None \<Rightarrow>
     (case firstHit 2 candidate (options selectElement) of Some m \<Rightarrow> Some m | None \<Rightarrow>
     (case firstHit 3 candidate (options selectElement) of Some m \<Rightarrow> Some m | None \<Rightarrow>
      firstHit 4 candidate (options selectElement))))"
proof -
  have 1: "tierHit 1 candidate = (\<lambda>opt. optionValue opt = candidate \<or> textContent opt = candidate)"
    by (auto simp add: tierHit_def fun_eq_iff)
  have 2: "tierHit 2 candidate = (\<lambda>opt. toLowerCase (optionValue opt) = toLowerCase candidate
                      \<or> toLowerCase (textContent opt) = toLowerCase candidate)"
    by (auto simp add: tierHit_def fun_eq_iff)
  have 3: "tierHit 3 candidate = (\<lambda>opt. str_includes (toLowerCase (optionValue opt)) (toLowerCase candidate)
                      \<or> str_includes (toLowerCase (textContent opt)) (toLowerCase candidate))"
    by (simp add: tierHit_def fun_eq_iff isSubstringOf_def)
  have 4: "tierHit 4 candidate = (\<lambda>opt. str_includes (toLowerCase candidate) (toLowerCase (optionValue opt))
                      \<or> str_includes (toLowerCase candidate) (toLowerCase (textContent opt)))"
    by (simp add: tierHit_def fun_eq_iff isSubstringOf_def)
  show ?thesis
    unfolding firstHit_def 1 2 3 4 findMatchingOption_def
    by (simp split: option.splits)
qed

lemma firstHit_None: "firstHit t c opts = None \<longleftrightarrow> \<not> list_ex (tierHit t c) opts"
  by (auto simp add: firstHit_def find_None_iff list_ex_iff)

lemma firstHit_None_all: "firstHit t c opts = None \<longleftrightarrow> (\<forall>opt \<in> set opts. \<not> tierHit t c opt)"
  by (auto simp add: firstHit_def find_None_iff)

lemma firstHit_Some:
  "firstHit t c opts = Some m \<longleftrightarrow>
     (\<exists>i < length opts. opts ! i = m \<and> tierHit t c m \<and> (\<forall>j < i. \<not> tierHit t c (opts ! j)))"
  by (auto simp add: firstHit_def find_Some_iff)

lemma findMatchingOption_eq_resolve:
  "findMatchingOption selectElement candidate = resolve candidate (options selectElement)"
proof -
  have "list_ex (tierHit t candidate) (options selectElement) \<longleftrightarrow>
        firstHit t candidate (options selectElement) \<noteq> None" for t
    by (simp add: firstHit_None)
  then show ?thesis
    unfolding findMatchingOption_firstHit resolve_def
    by (auto split: option.splits)
qed

lemma findMatchingOption_None:
  "findMatchingOption selectElement candidate = None \<longleftrightarrow>
     (\<forall>t \<in> {1, 2, 3, 4}. \<forall>opt \<in> set (options selectElement). \<not> tierHit t candidate opt)"
proof -
  let ?F = "\<lambda>t. firstHit t candidate (options selectElement)"
  have "findMatchingOption selectElement candidate = None \<longleftrightarrow>
        ?F 1 = None \<and> ?F 2 = None \<and> ?F 3 = None \<and> ?F 4 = None"
    unfolding findMatchingOption_firstHit by (simp split: option.splits)
  then show ?thesis by (simp add: firstHit_None_all)
qed

lemma findMatchingOption_Some:
  assumes "findMatchingOption selectElement candidate = Some m"
  shows "\<exists>t \<in> {1, 2, 3, 4}.
           (\<forall>t' \<in> {1..<t}. \<forall>opt \<in> set (options selectElement). \<not> tierHit t' candidate opt)
           \<and> (\<exists>i < length (options selectElement). options selectElement ! i = m
                 \<and> tierHit t candidate m
                 \<and> (\<forall>j < i. \<not> tierHit t candidate (options selectElement ! j)))"
proof -
  let ?F = "\<lambda>t. firstHit t candidate (options selectElement)"
  have none: "\<forall>opt \<in> set (options selectElement). \<not> tierHit t candidate opt" if "?F t = None" for t
    using that by (simp add: firstHit_None list_ex_iff)
  consider "?F 1 = Some m"
    | "?F 1 = None" "?F 2 = Some m"
    | "?F 1 = None" "?F 2 = None" "?F 3 = Some m"
    | "?F 1 = None" "?F 2 = None" "?F 3 = None" "?F 4 = Some m"
    using assms unfolding findMatchingOption_firstHit by (auto split: option.splits)
  then show ?thesis
  proof cases
    case 1
    then show ?thesis by (intro bexI [of _ 1]) (simp_all add: firstHit_Some)
  next
    case 2
    have "{1..<2::nat} = {1}" by auto
    with 2 none show ?thesis by (intro bexI [of _ 2]) (simp_all add: firstHit_Some)
  next
    case 3
    have "{1..<3::nat} = {1, 2}" by auto
    with 3 none show ?thesis by (intro bexI [of _ 3]) (simp_all add: firstHit_Some)
  next
    case 4
    have "{1..<4::nat} = {1, 2, 3}" by auto
    with 4 none show ?thesis by (intro bexI [of _ 4]) (simp_all add: firstHit_Some)
  qed
qed

text \<open>
  Claim C3. For every candidate string and every ordered list of options, the
  resolution applies the four tiers in order: exact match on value or label,
  exact match without regard to case, the candidate as a substring of a value
  or label, a value or label as a substring of the candidate (the last two
  without regard to case). The first tier with a hit wins, within a tier the
  first option in the order of the list, and the result is none exactly when
  no tier has a hit. Being a substring means occurring as a contiguous piece.
\<close>

theorem findMatchingOption_tiers:
  "findMatchingOption selectElement candidate = resolve candidate (options selectElement)
   \<and> (findMatchingOption selectElement candidate = None \<longleftrightarrow>
        (\<forall>t \<in> {1, 2, 3, 4}. \<forall>opt \<in> set (options selectElement). \<not> tierHit t candidate opt))
   \<and> (\<forall>m. findMatchingOption selectElement candidate = Some m \<longrightarrow>
        (\<exists>t \<in> {1, 2, 3, 4}.
           (\<forall>t' \<in> {1..<t}. \<forall>opt \<in> set (options selectElement). \<not> tierHit t' candidate opt)
           \<and> (\<exists>i < length (options selectElement). options selectElement ! i = m
                 \<and> tierHit t candidate m
                 \<and> (\<forall>j < i. \<not> tierHit t candidate (options selectElement ! j)))))
   \<and> (\<forall>s t. isSubstringOf t s \<longleftrightarrow> (\<exists>pre post. s = pre @ t @ post))"
proof -
  have "\<forall>s t. isSubstringOf t s \<longleftrightarrow> (\<exists>pre post. s = pre @ t @ post)"
    by (simp add: isSubstringOf_def str_includes_iff)
  with findMatchingOption_eq_resolve [of selectElement candidate]
    findMatchingOption_None [of selectElement candidate]
    findMatchingOption_Some [of selectElement candidate]
  show ?thesis by blast
qed

theorem findMatchingOption_tiers_witness:
  "findMatchingOption jeffersonSelect ''jefferson'' = Some (slotOption ''Jefferson Hospital'')
   \<and> findMatchingOption jeffersonSelect ''Mars Clinic'' = None
   \<and> tierHit 3 ''jefferson'' (slotOption ''Jefferson Hospital'')
   \<and> \<not> tierHit 1 ''jefferson'' (slotOption ''Jefferson Hospital'')
   \<and> \<not> tierHit 2 ''jefferson'' (slotOption ''Jefferson Hospital'')
   \<and> isSubstringOf ''ab'' ''cabd''"
proof -
  have r1: "resolve ''jefferson'' (options jeffersonSelect) = Some (slotOption ''Jefferson Hospital'')"
    by code_simp
  have r2: "resolve ''Mars Clinic'' (options jeffersonSelect) = None"
    by code_simp
  have h: "tierHit 3 ''jefferson'' (slotOption ''Jefferson Hospital'')"
    "\<not> tierHit 1 ''jefferson'' (slotOption ''Jefferson Hospital'')"
    "\<not> tierHit 2 ''jefferson'' (slotOption ''Jefferson Hospital'')"
    by code_simp+
  have "''cabd'' = ''c'' @ ''ab'' @ ''d''" by simp
  then have "\<exists>pre post. ''cabd'' = pre @ ''ab'' @ post" by blast
  with findMatchingOption_tiers [of jeffersonSelect "''jefferson''"]
    findMatchingOption_tiers [of jeffersonSelect "''Mars Clinic''"] r1 r2 h
  show ?thesis by simp
qed

section \<open>Split schedules\<close>

lemma House_split:
  assumes "doctorAvailability providerId = Some (Split sch ds)"
  shows "providerId = ''House, Gregory''
    \<and> sch = [\<lparr>days = [''monday'', ''tuesday'', ''wednesday''],
          hours = \<lparr>start = ''09:00'', finish = ''17:00''\<rparr>,
          location = ''PPTH Orthopedics''\<rparr>,
         \<lparr>days = [''thursday'', ''friday''],
          hours = \<lparr>start = ''09:00'', finish = ''17:00''\<rparr>,
          location = ''Jefferson Hospital''\<rparr>]
    \<and> ds = [''monday'', ''tuesday'', ''wednesday'', ''thursday'', ''friday'']"
  using assms unfolding doctorAvailability_def
  by (simp split: if_splits)

text \<open>
  Claim C8. For every provider with a split schedule, the aggregate
  working-day set equals the union of its segments' day-sets, and every
  weekday of that union lies in exactly one segment, which is the segment
  looked up for that day.
\<close>

theorem split_schedule_days:
  assumes "doctorAvailability providerId = Some (Split sch ds)"
  shows "set (days_of (Split sch ds)) = (\<Union>s \<in> set sch. set (days s))
    \<and> (\<forall>d \<in> set (days_of (Split sch ds)).
          length (filter (\<lambda>s. d \<in> set (days s)) sch) = 1
          \<and> (\<exists>s. scheduleForDay sch d = Some s \<and> d \<in> set (days s)
                 \<and> filter (\<lambda>s. d \<in> set (days s)) sch = [s]))"
proof -
  note h = House_split [OF assms]
  have 1: "set (days_of (Split sch ds)) = (\<Union>s \<in> set sch. set (days s))"
    using h by auto
  have 2: "\<forall>d \<in> set (days_of (Split sch ds)).
          length (filter (\<lambda>s. d \<in> set (days s)) sch) = 1
          \<and> (\<exists>s. scheduleForDay sch d = Some s \<and> d \<in> set (days s)
                 \<and> filter (\<lambda>s. d \<in> set (days s)) sch = [s])"
    using h by (simp add: scheduleForDay_def)
  from 1 2 show ?thesis by blast
qed

theorem split_schedule_days_witness:
  "doctorAvailability ''House, Gregory'' =
     Some (Split (schedule (the (doctorAvailability ''House, Gregory'')))
                 (combined (the (doctorAvailability ''House, Gregory''))))
   \<and> set (combined (the (doctorAvailability ''House, Gregory''))) =
       {''monday'', ''tuesday'', ''wednesday'', ''thursday'', ''friday''}
   \<and> map_option location
        (scheduleForDay (schedule (the (doctorAvailability ''House, Gregory''))) ''thursday'')
       = Some ''Jefferson Hospital''
   \<and> length (filter (\<lambda>s. ''thursday'' \<in> set (days s))
        (schedule (the (doctorAvailability ''House, Gregory'')))) = 1"
proof -
  have h: "doctorAvailability ''House, Gregory'' =
     Some (Split (schedule (the (doctorAvailability ''House, Gregory'')))
                 (combined (the (doctorAvailability ''House, Gregory''))))"
    by (simp add: doctorAvailability_def)
  have c: "combined (the (doctorAvailability ''House, Gregory'')) =
      [''monday'', ''tuesday'', ''wednesday'', ''thursday'', ''friday'']"
    by (simp add: doctorAvailability_def)
  have l: "map_option location
        (scheduleForDay (schedule (the (doctorAvailability ''House, Gregory''))) ''thursday'')
       = Some ''Jefferson Hospital''"
    by (simp add: doctorAvailability_def scheduleForDay_def)
  from split_schedule_days [OF h] h c l show ?thesis by simp
qed

section \<open>The appointment type from the history\<close>

lemma split_head: "\<exists>rest. split c s = takeWhile (\<lambda>x. x \<noteq> c) s # rest"
  by (induction s) (auto split: list.splits)

lemma familyName_takeWhile: "familyName doctorName = takeWhile (\<lambda>x. x \<noteq> CHR '','') doctorName"
  using split_head [of "CHR '',''" doctorName] by (auto simp add: familyName_def)

lemma hasSeenDoctor_iff:
  "hasSeenDoctor ev pat doctorName \<longleftrightarrow>
     (\<exists>apt \<in> set (history pat).
        (\<exists>pre post. provider apt = pre @ familyName doctorName @ post)
        \<and> (\<exists>t. parseDate ev (date apt) = Some t \<and> fiveYearsAgo ev \<le> t))"
proof -
  have d: "(case parseDate ev s of None \<Rightarrow> False | Some aptDate \<Rightarrow> fiveYearsAgo ev \<le> aptDate)
      \<longleftrightarrow> (\<exists>t. parseDate ev s = Some t \<and> fiveYearsAgo ev \<le> t)" for s
    by (cases "parseDate ev s") simp_all
  show ?thesis
    by (cases "appointments pat") (simp_all add: hasSeenDoctor_def history_def list_ex_iff str_includes_iff d)
qed

text \<open>
  Claim C5. For a loaded patient, the type chosen for a provider is
  ESTABLISHED if and only if some entry of the history has a provider string
  that contains the provider's family name (the part of the identifier before
  the comma) and a date not earlier than five years before the reference time;
  otherwise it is NEW, in particular for an empty or absent history.
  ESTABLISHED selects the duration 15 and NEW the duration 30.
\<close>

theorem appointment_type_classification:
  assumes "currentPatient a = Some pat"
    and "''ESTABLISHED'' \<in> set (map optionValue (options (appointment_type (form a))))"
    and "''NEW'' \<in> set (map optionValue (options (appointment_type (form a))))"
  shows "val (appointment_type (form (autoSetAppointmentType ev a doctorName))) =
      (if (\<exists>apt \<in> set (history pat).
            (\<exists>pre post. provider apt = pre @ familyName doctorName @ post)
            \<and> (\<exists>t. parseDate ev (date apt) = Some t \<and> fiveYearsAgo ev \<le> t))
       then ''ESTABLISHED'' else ''NEW'')
    \<and> (history pat = [] \<longrightarrow>
          val (appointment_type (form (autoSetAppointmentType ev a doctorName))) = ''NEW'')
    \<and> familyName doctorName = takeWhile (\<lambda>x. x \<noteq> CHR '','') doctorName
    \<and> duration ''ESTABLISHED'' = ''15'' \<and> duration ''NEW'' = ''30''"
proof -
  have v: "val (appointment_type (form (autoSetAppointmentType ev a doctorName))) =
      (if hasSeenDoctor ev pat doctorName then ''ESTABLISHED'' else ''NEW'')"
    using assms by (simp add: autoSetAppointmentType_def val_setValue_member)
  have e: "history pat = [] \<longrightarrow> \<not> hasSeenDoctor ev pat doctorName"
    by (simp add: hasSeenDoctor_iff)
  have d: "duration ''ESTABLISHED'' = ''15'' \<and> duration ''NEW'' = ''30''"
    by (simp add: duration_def)
  from v e d show ?thesis
    by (simp add: hasSeenDoctor_iff [symmetric] familyName_takeWhile [symmetric])
qed

lemma example_seen_House: "hasSeenDoctor exampleEnv examplePatient ''House, Gregory''" by code_simp
lemma example_not_seen_Grey: "\<not> hasSeenDoctor exampleEnv examplePatient ''Grey, Meredith''" by code_simp

theorem appointment_type_classification_witness:
  "currentPatient exampleApp = Some examplePatient
   \<and> ''ESTABLISHED'' \<in> set (map optionValue (options (appointment_type (form exampleApp))))
   \<and> ''NEW'' \<in> set (map optionValue (options (appointment_type (form exampleApp))))
   \<and> val (appointment_type (form (autoSetAppointmentType exampleEnv exampleApp ''House, Gregory''))) = ''ESTABLISHED''
   \<and> val (appointment_type (form (autoSetAppointmentType exampleEnv exampleApp ''Grey, Meredith''))) = ''NEW''
   \<and> familyName ''House, Gregory'' = ''House''
   \<and> history patientWithoutHistory = []
   \<and> val (appointment_type (form (autoSetAppointmentType exampleEnv
         (exampleApp\<lparr>currentPatient := Some patientWithoutHistory\<rparr>) ''House, Gregory''))) = ''NEW''"
proof -
  have p: "currentPatient exampleApp = Some examplePatient" by (simp add: exampleApp_def)
  have o1: "''ESTABLISHED'' \<in> set (map optionValue (options (appointment_type (form exampleApp))))"
    by code_simp
  have o2: "''NEW'' \<in> set (map optionValue (options (appointment_type (form exampleApp))))"
    by code_simp
  have f: "takeWhile (\<lambda>x. x \<noteq> CHR '','') ''House, Gregory'' = ''House''" by simp
  let ?b = "exampleApp\<lparr>currentPatient := Some patientWithoutHistory\<rparr>"
  have p': "currentPatient ?b = Some patientWithoutHistory" by simp
  have o1': "''ESTABLISHED'' \<in> set (map optionValue (options (appointment_type (form ?b))))"
    using o1 by simp
  have o2': "''NEW'' \<in> set (map optionValue (options (appointment_type (form ?b))))"
    using o2 by simp
  have e: "history patientWithoutHistory = []"
    by (simp add: history_def patientWithoutHistory_def)
  note t = appointment_type_classification [OF p o1 o2, of exampleEnv]
  note t' = appointment_type_classification [OF p' o1' o2', of exampleEnv "''House, Gregory''",
      THEN conjunct2, THEN conjunct1, rule_format, OF e]
  from t [of "''House, Gregory''"] t [of "''Grey, Meredith''"]
    example_seen_House example_not_seen_Grey p o1 o2 f t' e
  show ?thesis by (simp add: hasSeenDoctor_iff [symmetric])
qed

section \<open>Validation\<close>

lemma beforeToday_iff:
  "beforeToday ev d \<longleftrightarrow> (\<exists>s t. d = Some s \<and> parseDate ev s = Some t \<and> t < today ev)"
  by (auto simp add: beforeToday_def split: option.splits)

lemma not_truthy_iff: "\<not> truthy x \<longleftrightarrow> x = None \<or> x = Some []"
  by (auto simp add: truthy_def split: option.splits)

text \<open>
  Claim C7. For every draft, validation at submission fails with the list of
  exactly the empty members of the fixed set of required fields (first name,
  last name, date of birth, doctor, appointment type, location, date, time);
  when none is empty it fails with the past-date message if and only if the
  chosen date is strictly before today at local midnight, and succeeds
  otherwise. When validation fails, booking leaves the draft as it is.
\<close>

theorem validation_outcome:
  "validateAppointmentForm ev formData =
     (if filter (\<lambda>field. formData field = None \<or> formData field = Some []) required \<noteq> []
      then (False, [ShowError (RequiredFields
              (filter (\<lambda>field. formData field = None \<or> formData field = Some []) required))])
      else if (\<exists>s t. formData ''date'' = Some s \<and> parseDate ev s = Some t \<and> t < today ev)
      then (False, [ShowError PastDate])
      else (True, []))
   \<and> set (filter (\<lambda>field. formData field = None \<or> formData field = Some []) required) =
       {field \<in> {''firstName'', ''lastName'', ''dob'', ''doctor'', ''appointmentType'',
                  ''location'', ''date'', ''time''}.
          formData field = None \<or> formData field = Some []}
   \<and> (\<not> fst (validateAppointmentForm ev (getAppointmentFormData a)) \<longrightarrow>
        bookAppointment ev response a = (a, snd (validateAppointmentForm ev (getAppointmentFormData a))))"
proof -
  have 1: "validateAppointmentForm ev formData =
     (if filter (\<lambda>field. formData field = None \<or> formData field = Some []) required \<noteq> []
      then (False, [ShowError (RequiredFields
              (filter (\<lambda>field. formData field = None \<or> formData field = Some []) required))])
      else if (\<exists>s t. formData ''date'' = Some s \<and> parseDate ev s = Some t \<and> t < today ev)
      then (False, [ShowError PastDate])
      else (True, []))"
    by (simp add: validateAppointmentForm_def Let_def not_truthy_iff beforeToday_iff)
  have 2: "set (filter (\<lambda>field. formData field = None \<or> formData field = Some []) required) =
       {field \<in> {''firstName'', ''lastName'', ''dob'', ''doctor'', ''appointmentType'',
                  ''location'', ''date'', ''time''}.
          formData field = None \<or> formData field = Some []}"
    unfolding set_filter required_def by (simp only: list.set) 
  have 3: "\<not> fst (validateAppointmentForm ev (getAppointmentFormData a)) \<longrightarrow>
        bookAppointment ev response a = (a, snd (validateAppointmentForm ev (getAppointmentFormData a)))"
    by (simp add: bookAppointment_def Let_def split: prod.splits)
  from 1 2 3 show ?thesis by (simp only: simp_thms)
qed

theorem validation_outcome_witness:
  "validateAppointmentForm exampleEnv (getAppointmentFormData exampleApp) =
     (False, [ShowError (RequiredFields [''doctor'', ''appointmentType'', ''location'', ''date'', ''time''])])
   \<and> bookAppointment exampleEnv (Inr ''APT-1'') exampleApp =
       (exampleApp, [ShowError (RequiredFields [''doctor'', ''appointmentType'', ''location'', ''date'', ''time''])])
   \<and> validateAppointmentForm exampleEnv (exampleData ''2029-12-31'') = (False, [ShowError PastDate])
   \<and> validateAppointmentForm exampleEnv (exampleData ''2030-06-03'') = (True, [])"
proof -
  have m: "filter (\<lambda>field. getAppointmentFormData exampleApp field = None
                \<or> getAppointmentFormData exampleApp field = Some []) required
      = [''doctor'', ''appointmentType'', ''location'', ''date'', ''time'']"
    by code_simp
  have f1: "filter (\<lambda>field. exampleData ''2029-12-31'' field = None
                \<or> exampleData ''2029-12-31'' field = Some []) required = []"
    by (simp add: exampleData_def required_def)
  have f2: "filter (\<lambda>field. exampleData ''2030-06-03'' field = None
                \<or> exampleData ''2030-06-03'' field = Some []) required = []"
    by (simp add: exampleData_def required_def)
  have p: "\<exists>s t. exampleData ''2029-12-31'' ''date'' = Some s \<and> parseDate exampleEnv s = Some t
      \<and> t < today exampleEnv"
    by (simp add: exampleData_def exampleEnv_def)
  have q: "\<not> (\<exists>s t. exampleData ''2030-06-03'' ''date'' = Some s \<and> parseDate exampleEnv s = Some t
      \<and> t < today exampleEnv)"
    by (simp add: exampleData_def exampleEnv_def)
  note v = validation_outcome [of exampleEnv _ exampleApp "Inr ''APT-1''"]
  have a: "validateAppointmentForm exampleEnv (getAppointmentFormData exampleApp) =
     (False, [ShowError (RequiredFields [''doctor'', ''appointmentType'', ''location'', ''date'', ''time''])])"
    using v [of "getAppointmentFormData exampleApp", THEN conjunct1] by (simp only: m) simp
  have b: "bookAppointment exampleEnv (Inr ''APT-1'') exampleApp =
       (exampleApp, [ShowError (RequiredFields [''doctor'', ''appointmentType'', ''location'', ''date'', ''time''])])"
    using v [of "getAppointmentFormData exampleApp"] a by simp
  have c: "validateAppointmentForm exampleEnv (exampleData ''2029-12-31'') = (False, [ShowError PastDate])"
    using v [of "exampleData ''2029-12-31''", THEN conjunct1] p by (simp only: f1) simp
  have d: "validateAppointmentForm exampleEnv (exampleData ''2030-06-03'') = (True, [])"
    using v [of "exampleData ''2030-06-03''", THEN conjunct1] q by (simp only: f2) simp
  from a b c d show ?thesis by (simp only: simp_thms)
qed

section \<open>The first pass over a batch\<close>

lemma get_put:
  "getElementById (putElement p i e) k = (if k = i then Some e else getElementById p k)"
  by (simp add: getElementById_def putElement_def)

lemma get_form_elements:
  "getElementById p ''doctor'' = Some (doctor p)"
  "getElementById p ''appointment-location'' = Some (appointment_location p)"
  "getElementById p ''appointment-date'' = Some (appointment_date p)"
  "getElementById p ''appointment-time'' = Some (appointment_time p)"
  "getElementById p ''appointment-type'' = Some (appointment_type p)"
  by (simp_all add: getElementById_def)

lemma updateField_found:
  "getElementById (page_of ps) field = Some element \<Longrightarrow>
   updateField (field, v) ps =
     (ps\<lparr>page_of := putElement (page_of ps) field (assignField field element v),
         updatedFields := updatedFields ps @ [field],
         needsDoctorHandler := (if field = ''doctor'' then True else needsDoctorHandler ps),
         needsDateHandler :=
           (if field = ''doctor'' then needsDateHandler ps
            else if field = ''appointment-date'' then True else needsDateHandler ps)\<rparr>, [])"
  by (simp add: updateField_def)

lemma updateField_missing:
  "getElementById (page_of ps) field = None \<Longrightarrow> updateField (field, v) ps = (ps, [FieldNotFound field])"
  by (simp add: updateField_def)

lemma updateField_get:
  "getElementById (page_of (fst (updateField (field, v) ps))) k =
     (if k = field then map_option (\<lambda>e. assignField field e v) (getElementById (page_of ps) field)
      else getElementById (page_of ps) k)"
  by (cases "getElementById (page_of ps) field")
     (simp_all add: updateField_found updateField_missing get_put)

lemma updateField_flags:
  "needsDoctorHandler (fst (updateField (field, v) ps)) = (needsDoctorHandler ps \<or> field = ''doctor'')"
  "needsDateHandler (fst (updateField (field, v) ps)) = (needsDateHandler ps \<or> field = ''appointment-date'')"
  by (cases "getElementById (page_of ps) field";
      auto simp add: updateField_found updateField_missing get_form_elements)+

lemma firstPass_Cons:
  "firstPass (entry # rest) ps =
     (fst (firstPass rest (fst (updateField entry ps))),
      snd (updateField entry ps) @ snd (firstPass rest (fst (updateField entry ps))))"
  by (simp split: prod.splits)

lemma firstPass_get:
  "distinct (map fst batch) \<Longrightarrow>
   getElementById (page_of (fst (firstPass batch ps))) k =
     (case map_of batch k of
        None \<Rightarrow> getElementById (page_of ps) k
      | Some v \<Rightarrow> map_option (\<lambda>e. assignField k e v) (getElementById (page_of ps) k))"
proof (induction batch arbitrary: ps)
  case Nil
  show ?case by simp
next
  case (Cons entry rest)
  obtain field v where entry: "entry = (field, v)" by (cases entry)
  obtain ps1 r1 where u: "updateField (field, v) ps = (ps1, r1)" by (cases "updateField (field, v) ps")
  from Cons.prems entry have d: "distinct (map fst rest)" and n: "map_of rest field = None"
    by (simp_all add: map_of_eq_None_iff)
  have g: "getElementById (page_of ps1) k =
     (if k = field then map_option (\<lambda>e. assignField field e v) (getElementById (page_of ps) field)
      else getElementById (page_of ps) k)"
    using updateField_get [of field v ps k] u by simp
  have "getElementById (page_of (fst (firstPass (entry # rest) ps))) k =
        getElementById (page_of (fst (firstPass rest ps1))) k"
    using u entry by (simp only: firstPass_Cons fst_conv)
  also have "\<dots> = (case map_of rest k of
        None \<Rightarrow> getElementById (page_of ps1) k
      | Some w \<Rightarrow> map_option (\<lambda>e. assignField k e w) (getElementById (page_of ps1) k))"
    by (rule Cons.IH [OF d])
  also have "\<dots> = (case map_of (entry # rest) k of
        None \<Rightarrow> getElementById (page_of ps) k
      | Some v \<Rightarrow> map_option (\<lambda>e. assignField k e v) (getElementById (page_of ps) k))"
    using n g entry by (cases "k = field"; cases "map_of rest k") simp_all
  finally show ?case .
qed

lemma firstPass_needsDoctor:
  "needsDoctorHandler (fst (firstPass batch ps)) = (needsDoctorHandler ps \<or> ''doctor'' \<in> fst ` set batch)"
proof (induction batch arbitrary: ps)
  case Nil
  show ?case by simp
next
  case (Cons entry rest)
  obtain field v where entry: "entry = (field, v)" by (cases entry)
  have "needsDoctorHandler (fst (firstPass (entry # rest) ps)) =
        needsDoctorHandler (fst (firstPass rest (fst (updateField entry ps))))"
    by (simp only: firstPass_Cons fst_conv)
  also have "\<dots> = (needsDoctorHandler (fst (updateField entry ps)) \<or> ''doctor'' \<in> fst ` set rest)"
    by (rule Cons.IH)
  finally show ?case using entry by (auto simp add: updateField_flags)
qed

lemma firstPass_needsDate:
  "needsDateHandler (fst (firstPass batch ps)) =
     (needsDateHandler ps \<or> ''appointment-date'' \<in> fst ` set batch)"
proof (induction batch arbitrary: ps)
  case Nil
  show ?case by simp
next
  case (Cons entry rest)
  obtain field v where entry: "entry = (field, v)" by (cases entry)
  have "needsDateHandler (fst (firstPass (entry # rest) ps)) =
        needsDateHandler (fst (firstPass rest (fst (updateField entry ps))))"
    by (simp only: firstPass_Cons fst_conv)
  also have "\<dots> = (needsDateHandler (fst (updateField entry ps)) \<or> ''appointment-date'' \<in> fst ` set rest)"
    by (rule Cons.IH)
  finally show ?case using entry by (auto simp add: updateField_flags)
qed

lemma firstPass_append:
  "firstPass (xs @ ys) ps =
     (case firstPass xs ps of (ps1, r1) \<Rightarrow>
        (case firstPass ys ps1 of (ps2, r2) \<Rightarrow> (ps2, r1 @ r2)))"
  by (induction xs arbitrary: ps) (auto split: prod.splits)

lemma firstPass_keeps_missing:
  "getElementById (page_of ps) f = None \<Longrightarrow> getElementById (page_of (fst (firstPass xs ps))) f = None"
proof (induction xs arbitrary: ps)
  case Nil
  then show ?case by simp
next
  case (Cons entry rest)
  obtain field v where entry: "entry = (field, v)" by (cases entry)
  obtain ps1 r1 where u: "updateField (field, v) ps = (ps1, r1)" by (cases "updateField (field, v) ps")
  have "getElementById (page_of ps1) f = None"
    using updateField_get [of field v ps f] u Cons.prems by (simp split: if_splits)
  then have "getElementById (page_of (fst (firstPass rest ps1))) f = None" by (rule Cons.IH)
  then show ?case using u entry by (simp only: firstPass_Cons fst_conv)
qed

lemma firstPass_unknown:
  assumes "getElementById (page_of ps) f = None"
  shows "\<exists>ps' ra rb. firstPass (xs @ ys) ps = (ps', ra @ rb)
           \<and> firstPass (xs @ (f, v) # ys) ps = (ps', ra @ FieldNotFound f # rb)"
proof -
  obtain ps1 ra where x: "firstPass xs ps = (ps1, ra)" by (cases "firstPass xs ps")
  obtain ps2 rb where y: "firstPass ys ps1 = (ps2, rb)" by (cases "firstPass ys ps1")
  have "getElementById (page_of ps1) f = None"
    using firstPass_keeps_missing [OF assms, of xs] x by simp
  then have "updateField (f, v) ps1 = (ps1, [FieldNotFound f])" by (rule updateField_missing)
  then have "firstPass ((f, v) # ys) ps1 = (ps2, FieldNotFound f # rb)" using y by simp
  then have "firstPass (xs @ (f, v) # ys) ps = (ps2, ra @ FieldNotFound f # rb)"
    using x by (simp add: firstPass_append)
  moreover have "firstPass (xs @ ys) ps = (ps2, ra @ rb)"
    using x y by (simp add: firstPass_append)
  ultimately show ?thesis by blast
qed

lemma map_of_unknown:
  "k \<noteq> f \<Longrightarrow> map_of (xs @ (f, v) # ys) k = map_of (xs @ ys) k"
  by (induction xs) auto

lemma schema_has_elements: "f \<in> set schema \<Longrightarrow> getElementById p f \<noteq> None"
  by (auto simp add: schema_def getElementById_def)

text \<open>
  Claim C9, as stated, fails: the program looks a field name up among all the
  elements of the document, not in the schema of the draft. The name
  \<open>chat-input\<close> is outside the schema, yet a batch that sets it overwrites the
  input of the chat and lists it among the updated fields, and no
  unknown-field entry is written.
\<close>

theorem field_outside_schema_overwritten_counterexample:
  "''chat-input'' \<notin> set schema
   \<and> map_option val (getElementById (form exampleAppChat) ''chat-input'') = Some []
   \<and> map_sum id (\<lambda>(a', r). (map_option val (getElementById (form a') ''chat-input''), r))
       (updateAppointmentForm exampleEnv [(''chat-input'', ''hello'')] exampleAppChat)
     = Inr (Some ''hello'', [FormUpdateNotification [''chat-input'']])"
  by code_simp

text \<open>
  Claim C9, amended. For every batch that contains a field name that is the id
  of no element of the document, that field is reported in the activity log
  under its own reason, and processing goes on: the batch has the same outcome
  as the batch without that field, the same resulting application and the
  same reports, apart from the one report of the unknown field. (A name
  outside the schema that is the id of another element is not unknown to the
  program.)
\<close>

theorem unknown_field_ignored:
  assumes "getElementById (form a) f = None"
  shows "(\<forall>e. updateAppointmentForm ev (xs @ ys) a = Inl e \<longrightarrow>
            updateAppointmentForm ev (xs @ (f, v) # ys) a = Inl e)
    \<and> (\<forall>a' r'. updateAppointmentForm ev (xs @ ys) a = Inr (a', r') \<longrightarrow>
          (\<exists>ra rb. r' = ra @ rb
             \<and> updateAppointmentForm ev (xs @ (f, v) # ys) a = Inr (a', ra @ FieldNotFound f # rb)))"
proof -
  let ?init = "startPass a"
  from assms have "getElementById (page_of ?init) f = None" by (simp add: startPass_def)
  from firstPass_unknown [OF this, of xs ys v]
  obtain ps' ra rb where 1: "firstPass (xs @ ys) ?init = (ps', ra @ rb)"
    and 2: "firstPass (xs @ (f, v) # ys) ?init = (ps', ra @ FieldNotFound f # rb)" by blast
  from assms have n: "''appointment-location'' \<noteq> f" "''appointment-time'' \<noteq> f"
    by (auto simp add: get_form_elements)
  have m: "map_of (xs @ (f, v) # ys) ''appointment-location'' = map_of (xs @ ys) ''appointment-location''"
    "map_of (xs @ (f, v) # ys) ''appointment-time'' = map_of (xs @ ys) ''appointment-time''"
    by (rule map_of_unknown, rule n)+
  have d: "doctorPass ev (xs @ (f, v) # ys) b x = doctorPass ev (xs @ ys) b x" for b x
    unfolding doctorPass_def m ..
  have t: "datePass ev (xs @ (f, v) # ys) b x = datePass ev (xs @ ys) b x" for b x
    unfolding datePass_def m ..
  show ?thesis
    unfolding updateAppointmentForm_def 1 2 d t
    by (auto split: sum.splits prod.splits)
qed

theorem unknown_field_ignored_witness:
  "getElementById (form exampleApp) ''insurance'' = None
   \<and> (\<exists>a' r'. updateAppointmentForm exampleEnv
                 [(''doctor'', ''House, Gregory''), (''appointment-location'', ''Jefferson Hospital'')]
                 exampleApp = Inr (a', r')
        \<and> (\<exists>ra rb. r' = ra @ rb \<and>
             updateAppointmentForm exampleEnv
                 [(''doctor'', ''House, Gregory''), (''insurance'', ''Aetna''),
                  (''appointment-location'', ''Jefferson Hospital'')]
                 exampleApp = Inr (a', ra @ FieldNotFound ''insurance'' # rb)))
   \<and> getElementById (form exampleAppUnlisted) ''insurance'' = None
   \<and> updateAppointmentForm exampleEnv [(''appointment-date'', ''2030-06-03'')] exampleAppUnlisted
       = Inl TypeError
   \<and> updateAppointmentForm exampleEnv
         [(''insurance'', ''Aetna''), (''appointment-date'', ''2030-06-03'')] exampleAppUnlisted
       = Inl TypeError"
proof -
  have g: "getElementById (form exampleApp) ''insurance'' = None" by code_simp
  have g': "getElementById (form exampleAppUnlisted) ''insurance'' = None" by code_simp
  have "\<not> isl (updateAppointmentForm exampleEnv
                 [(''doctor'', ''House, Gregory''), (''appointment-location'', ''Jefferson Hospital'')]
                 exampleApp)"
    by code_simp
  then obtain a' r' where u: "updateAppointmentForm exampleEnv
                 ([(''doctor'', ''House, Gregory'')] @ [(''appointment-location'', ''Jefferson Hospital'')])
                 exampleApp = Inr (a', r')"
    by (cases "updateAppointmentForm exampleEnv
                 [(''doctor'', ''House, Gregory''), (''appointment-location'', ''Jefferson Hospital'')]
                 exampleApp") auto
  have "isl (updateAppointmentForm exampleEnv [(''appointment-date'', ''2030-06-03'')] exampleAppUnlisted)"
    by code_simp
  then have e: "updateAppointmentForm exampleEnv ([] @ [(''appointment-date'', ''2030-06-03'')])
      exampleAppUnlisted = Inl TypeError"
    by (cases "updateAppointmentForm exampleEnv [(''appointment-date'', ''2030-06-03'')] exampleAppUnlisted")
       (auto intro: error.exhaust)
  from unknown_field_ignored [OF g, of exampleEnv "[(''doctor'', ''House, Gregory'')]"
      "[(''appointment-location'', ''Jefferson Hospital'')]" "''Aetna''", THEN conjunct2, rule_format, OF u]
    unknown_field_ignored [OF g', of exampleEnv "[]" "[(''appointment-date'', ''2030-06-03'')]" "''Aetna''",
      THEN conjunct1, rule_format, OF e] u e g g'
  show ?thesis by auto
qed

section \<open>Rejecting a date\<close>





section \<open>The second pass: the handlers after a batch\<close>

lemma firstPass_form_elements:
  assumes "distinct (map fst batch)"
  shows "doctor (page_of (fst (firstPass batch ps))) =
           (case map_of batch ''doctor'' of None \<Rightarrow> doctor (page_of ps)
            | Some v \<Rightarrow> assignField ''doctor'' (doctor (page_of ps)) v)"
    and "appointment_location (page_of (fst (firstPass batch ps))) =
           (case map_of batch ''appointment-location'' of None \<Rightarrow> appointment_location (page_of ps)
            | Some v \<Rightarrow> assignField ''appointment-location'' (appointment_location (page_of ps)) v)"
    and "appointment_date (page_of (fst (firstPass batch ps))) =
           (case map_of batch ''appointment-date'' of None \<Rightarrow> appointment_date (page_of ps)
            | Some v \<Rightarrow> assignField ''appointment-date'' (appointment_date (page_of ps)) v)"
    and "appointment_time (page_of (fst (firstPass batch ps))) =
           (case map_of batch ''appointment-time'' of None \<Rightarrow> appointment_time (page_of ps)
            | Some v \<Rightarrow> assignField ''appointment-time'' (appointment_time (page_of ps)) v)"
  using firstPass_get [OF assms, of ps "''doctor''"]
    firstPass_get [OF assms, of ps "''appointment-location''"]
    firstPass_get [OF assms, of ps "''appointment-date''"]
    firstPass_get [OF assms, of ps "''appointment-time''"]
  by (simp_all add: get_form_elements split: option.splits)

lemma tagName_assignField [simp]: "tagName (assignField field e v) = tagName e"
  by (simp add: assignField_def Let_def split: option.splits)

lemma assignField_date:
  "tagName e \<noteq> ''SELECT'' \<Longrightarrow> isDateString v \<Longrightarrow>
   val (assignField ''appointment-date'' e v) = v"
  by (simp add: assignField_def setValue_date_string)

lemma slotHours_catalogue:
  assumes "doctorAvailability d = Some av"
  shows "\<exists>h. slotHours av d dayName = Inr h"
proof -
  consider "d = ''Grey, Meredith''" | "d = ''House, Gregory''" | "d = ''Yang, Cristina''"
    | "d = ''Perry, Chris''" | "d = ''Brennan, Temperance''"
    using assms by (auto simp add: doctorAvailability_def split: if_splits)
  then show ?thesis
  proof cases
    case 2
    with assms show ?thesis
      by (cases "dayName = []")
         (auto simp add: doctorAvailability_def slotHours_def firstSegmentHours_def
            scheduleForDay_def)
  qed (use assms in \<open>auto simp add: doctorAvailability_def slotHours_def\<close>)
qed

lemma generateTimeSlots_catalogue:
  assumes "doctorAvailability d = Some av" and "slotHours av d dayName = Inr h"
  shows "generateTimeSlots a d dayName =
     Inr (a\<lparr>form := (form a)\<lparr>appointment_time :=
            (foldl appendChild
               (setInnerHTML (appointment_time (form a)) [\<lparr>optionValue = [], textContent = ''Select time''\<rparr>])
               (map slotOption (timeSlots (parseTime (start h)) (parseTime (finish h)))))
            \<lparr>disabled := False\<rparr>\<rparr>\<rparr>)"
  using assms by (simp add: generateTimeSlots_def Let_def)

lemma regenerated_props:
  "tagName e = ''SELECT'' \<Longrightarrow>
   map optionValue (options (regenerated e h)) =
     [] # timeSlots (parseTime (start h)) (parseTime (finish h))"
  "tagName (regenerated e h) = tagName e"
  by (simp_all add: regenerated_def options_foldl_appendChild options_setInnerHTML
      slotOption_def comp_def)

lemma handleDateSelection_accepted:
  assumes "val (doctor (form a)) = d"
    and "val (appointment_date (form a)) = s" and "s \<noteq> []"
    and "doctorAvailability d = Some av"
    and "weekdayOf ev s \<in> set (days_of av)"
    and "slotHours av d (weekdayOf ev s) = Inr h"
  shows "\<exists>a'. handleDateSelection ev a = Inr (a', [])
     \<and> appointment_time (form a') = regenerated (appointment_time (form a)) h
     \<and> appointment_date (form a') = appointment_date (form a)
     \<and> doctor (form a') = doctor (form a)
     \<and> validateDate a' = validateDate a
     \<and> (d \<noteq> ''House, Gregory'' \<longrightarrow> appointment_location (form a') = appointment_location (form a))"
proof -
  have ne: "d \<noteq> []" using assms(4) by (auto simp add: doctorAvailability_def)
  show ?thesis
  proof (cases "d = ''House, Gregory''")
    case False
    with assms ne show ?thesis
      by (simp add: handleDateSelection_def Let_def generateTimeSlots_catalogue regenerated_def)
  next
    case True
    then obtain sch ds where av: "av = Split sch ds"
      using assms(4) by (auto simp add: doctorAvailability_def)
    show ?thesis
    proof (cases "scheduleForDay sch (weekdayOf ev s)")
      case None
      with assms ne True av show ?thesis
        by (simp add: handleDateSelection_def Let_def generateTimeSlots_catalogue regenerated_def)
    next
      case (Some seg)
      let ?a1 = "a\<lparr>form := (form a)\<lparr>appointment_location :=
                    setValue (appointment_location (form a)) (location seg)\<rparr>\<rparr>"
      have "generateTimeSlots ?a1 d (weekdayOf ev s) =
            Inr (?a1\<lparr>form := (form ?a1)\<lparr>appointment_time :=
                   regenerated (appointment_time (form ?a1)) h\<rparr>\<rparr>)"
        unfolding regenerated_def by (rule generateTimeSlots_catalogue [OF assms(4,6)])
      with assms ne True av Some show ?thesis
        by (simp add: handleDateSelection_def Let_def)
    qed
  qed
qed

lemma updateField_missing_iff:
  "getElementById (page_of (fst (updateField entry ps))) f = None \<longleftrightarrow>
   getElementById (page_of ps) f = None"
  by (cases entry) (simp add: updateField_get)

lemma updateField_reports:
  "snd (updateField entry ps) =
     (if getElementById (page_of ps) (fst entry) = None then [FieldNotFound (fst entry)] else [])"
  "updatedFields (fst (updateField entry ps)) =
     updatedFields ps @ (if getElementById (page_of ps) (fst entry) = None then [] else [fst entry])"
  by (cases entry; cases "getElementById (page_of ps) (fst entry)";
      simp add: updateField_found updateField_missing)+

lemma firstPass_reports:
  "snd (firstPass batch ps) =
     map FieldNotFound (filter (\<lambda>f. getElementById (page_of ps) f = None) (map fst batch))"
proof (induction batch arbitrary: ps)
  case Nil
  show ?case by simp
next
  case (Cons entry rest)
  have "snd (firstPass (entry # rest) ps) =
        snd (updateField entry ps) @ snd (firstPass rest (fst (updateField entry ps)))"
    by (simp only: firstPass_Cons snd_conv)
  also have "snd (firstPass rest (fst (updateField entry ps))) =
      map FieldNotFound (filter (\<lambda>f. getElementById (page_of ps) f = None) (map fst rest))"
    by (simp only: Cons.IH updateField_missing_iff)
  finally show ?case by (simp add: updateField_reports)
qed

lemma firstPass_updatedFields:
  "updatedFields (fst (firstPass batch ps)) =
     updatedFields ps @ filter (\<lambda>f. getElementById (page_of ps) f \<noteq> None) (map fst batch)"
proof (induction batch arbitrary: ps)
  case Nil
  show ?case by simp
next
  case (Cons entry rest)
  have "updatedFields (fst (firstPass (entry # rest) ps)) =
        updatedFields (fst (firstPass rest (fst (updateField entry ps))))"
    by (simp only: firstPass_Cons fst_conv)
  also have "\<dots> = updatedFields (fst (updateField entry ps)) @
      filter (\<lambda>f. getElementById (page_of ps) f \<noteq> None) (map fst rest)"
    by (simp only: Cons.IH updateField_missing_iff)
  finally show ?case by (simp add: updateField_reports)
qed

lemma autoSetAppointmentType_keeps:
  "doctor (form (autoSetAppointmentType ev a n)) = doctor (form a)"
  "appointment_date (form (autoSetAppointmentType ev a n)) = appointment_date (form a)"
  "appointment_time (form (autoSetAppointmentType ev a n)) = appointment_time (form a)"
  by (cases "currentPatient a"; simp add: autoSetAppointmentType_def)+

lemma autoSetLocation_keeps:
  "doctor (form (autoSetLocation a n)) = doctor (form a)"
  "appointment_date (form (autoSetLocation a n)) = appointment_date (form a)"
  "appointment_time (form (autoSetLocation a n)) = appointment_time (form a)"
  by (cases "doctorLocationMap n"; simp add: autoSetLocation_def)+

lemma setupDateRestrictions_keeps:
  "doctor (form (setupDateRestrictions ev a n)) = doctor (form a)"
  "val (appointment_date (form (setupDateRestrictions ev a n))) = val (appointment_date (form a))"
  "appointment_time (form (setupDateRestrictions ev a n)) = appointment_time (form a)"
  "appointment_location (form (setupDateRestrictions ev a n)) = appointment_location (form a)"
  by (cases "doctorAvailability n"; simp add: setupDateRestrictions_def)+

lemma handleDoctorSelection_keeps:
  assumes "val (doctor (form a)) \<noteq> []"
  shows "doctor (form (handleDoctorSelection ev a)) = doctor (form a)"
    and "val (appointment_date (form (handleDoctorSelection ev a))) = val (appointment_date (form a))"
    and "tagName (appointment_time (form (handleDoctorSelection ev a))) = tagName (appointment_time (form a))"
  using assms
  by (simp_all add: handleDoctorSelection_def Let_def setupDateRestrictions_keeps
      autoSetLocation_keeps autoSetAppointmentType_keeps)

lemma doctorPass_keeps:
  assumes "val (doctor (form a)) \<noteq> []"
  shows "doctor (form (doctorPass ev batch nd a)) = doctor (form a)"
    and "val (appointment_date (form (doctorPass ev batch nd a))) = val (appointment_date (form a))"
    and "tagName (appointment_time (form (doctorPass ev batch nd a))) = tagName (appointment_time (form a))"
  using assms
  by (simp_all add: doctorPass_def Let_def handleDoctorSelection_keeps setupDateRestrictions_keeps)

lemma doctorPass_explicit_location:
  assumes "truthy (map_of batch ''appointment-location'')"
    and "doctorAvailability (val (doctor (form a))) = Some av"
  shows "doctorPass ev batch True a =
     a\<lparr>form := (form a)\<lparr>appointment_date :=
          (appointment_date (form a))\<lparr>attr_min := tomorrow ev, attr_max := maxDate ev,
                                      disabled := False\<rparr>\<rparr>,
       validateDate := Some (days_of av)\<rparr>"
proof -
  have "val (doctor (form a)) \<noteq> []"
    using assms(2) by (auto simp add: doctorAvailability_def)
  with assms show ?thesis
    by (simp add: doctorPass_def setupDateRestrictions_def)
qed

lemma datePass_accepted:
  assumes "map_of batch ''appointment-time'' = Some t" and "t \<noteq> []"
    and "tagName (appointment_time (form a)) = ''SELECT''"
    and "val (doctor (form a)) = d"
    and "val (appointment_date (form a)) = s" and "s \<noteq> []"
    and "doctorAvailability d = Some av"
    and "weekdayOf ev s \<in> set (days_of av)"
    and "slotHours av d (weekdayOf ev s) = Inr h"
  shows "\<exists>a'. datePass ev batch True a = Inr (a', [])
     \<and> map optionValue (options (appointment_time (form a'))) =
          [] # timeSlots (parseTime (start h)) (parseTime (finish h))
     \<and> val (appointment_time (form a')) =
          (if t \<in> set (timeSlots (parseTime (start h)) (parseTime (finish h))) then t else [])
     \<and> val (appointment_date (form a')) = s"
proof -
  from handleDateSelection_accepted [OF assms(4,5,6,7,8,9)]
  obtain a1 where h: "handleDateSelection ev a = Inr (a1, [])"
    and t: "appointment_time (form a1) = regenerated (appointment_time (form a)) h"
    and d: "appointment_date (form a1) = appointment_date (form a)"
    by blast
  let ?a' = "a1\<lparr>form := (form a1)\<lparr>appointment_time := setValue (appointment_time (form a1)) t\<rparr>\<rparr>"
  have 1: "datePass ev batch True a = Inr (?a', [])"
    using assms(1,2) h by (simp add: datePass_def)
  have 2: "map optionValue (options (appointment_time (form ?a'))) =
          [] # timeSlots (parseTime (start h)) (parseTime (finish h))"
    using assms(3) by (simp add: t regenerated_props)
  have "tagName (regenerated (appointment_time (form a)) h) = ''SELECT''"
    using assms(3) by (simp add: regenerated_props)
  then have 3: "val (appointment_time (form ?a')) =
          (if t \<in> set (timeSlots (parseTime (start h)) (parseTime (finish h))) then t else [])"
    using assms(2) by (simp add: t val_setValue_select regenerated_props)
  have 4: "val (appointment_date (form ?a')) = s"
    using assms(5) by (simp add: d)
  show ?thesis
    by (rule exI [of _ ?a']) (simp only: 1 2 3 4 simp_thms)
qed

lemma ne_of_mem: "x \<in> set xs \<Longrightarrow> length xs > 0"
  by (cases xs) simp_all

lemma key_in_batch: "map_of xs k = Some v \<Longrightarrow> k \<in> fst ` set xs"
  by (induction xs) (auto split: if_splits)

lemma startPass_simps [simp]:
  "page_of (startPass a) = form a" "updatedFields (startPass a) = []"
  "needsDoctorHandler (startPass a) = False" "needsDateHandler (startPass a) = False"
  by (simp_all add: startPass_def)

lemma updateAppointmentForm_startPass:
  "updateAppointmentForm ev batch a =
     (case datePass ev batch (needsDateHandler (fst (firstPass batch (startPass a))))
             (doctorPass ev batch (needsDoctorHandler (fst (firstPass batch (startPass a))))
                (a\<lparr>form := page_of (fst (firstPass batch (startPass a)))\<rparr>)) of
        Inl e \<Rightarrow> Inl e
      | Inr (a2, r2) \<Rightarrow>
          Inr (a2, snd (firstPass batch (startPass a)) @ r2 @
               (if length (updatedFields (fst (firstPass batch (startPass a)))) > 0
                then [FormUpdateNotification (updatedFields (fst (firstPass batch (startPass a))))]
                else [])))"
  unfolding updateAppointmentForm_def
  by (cases "firstPass batch (startPass a)") (simp only: prod.case fst_conv snd_conv)


lemma first_pass_summary:
  "snd (firstPass batch (startPass a)) =
     map FieldNotFound (filter (\<lambda>f. getElementById (form a) f = None) (map fst batch))"
  "updatedFields (fst (firstPass batch (startPass a))) =
     filter (\<lambda>f. getElementById (form a) f \<noteq> None) (map fst batch)"
  "needsDoctorHandler (fst (firstPass batch (startPass a))) = (''doctor'' \<in> fst ` set batch)"
  "needsDateHandler (fst (firstPass batch (startPass a))) = (''appointment-date'' \<in> fst ` set batch)"
  by (simp_all add: firstPass_reports firstPass_updatedFields firstPass_needsDoctor firstPass_needsDate)

lemma first_pass_elements:
  assumes "distinct (map fst batch)"
  shows "map_of batch ''doctor'' = None \<Longrightarrow>
           doctor (page_of (fst (firstPass batch (startPass a)))) = doctor (form a)"
    and "map_of batch ''doctor'' = Some dv \<Longrightarrow>
           doctor (page_of (fst (firstPass batch (startPass a)))) =
           assignField ''doctor'' (doctor (form a)) dv"
    and "map_of batch ''appointment-location'' = Some lv \<Longrightarrow>
           appointment_location (page_of (fst (firstPass batch (startPass a)))) =
           assignField ''appointment-location'' (appointment_location (form a)) lv"
    and "map_of batch ''appointment-date'' = Some s \<Longrightarrow>
           appointment_date (page_of (fst (firstPass batch (startPass a)))) =
           assignField ''appointment-date'' (appointment_date (form a)) s"
    and "map_of batch ''appointment-time'' = Some t \<Longrightarrow>
           appointment_time (page_of (fst (firstPass batch (startPass a)))) =
           assignField ''appointment-time'' (appointment_time (form a)) t"
  by (simp_all add: firstPass_form_elements [OF assms])

lemma updated_nonempty:
  assumes "map_of batch ''appointment-date'' = Some s"
  shows "length (filter (\<lambda>f. getElementById (form a) f \<noteq> None) (map fst batch)) > 0"
proof -
  have "''appointment-date'' \<in> set (map fst batch)"
    using key_in_batch [OF assms] by simp
  then have "''appointment-date'' \<in> set (filter (\<lambda>f. getElementById (form a) f \<noteq> None) (map fst batch))"
    by (simp add: get_form_elements)
  then show ?thesis by (rule ne_of_mem)
qed

text \<open>
  Claim C2, amended. For every batch that sets a date, given as a date string,
  and a non-empty time, when the date is accepted for the provider then
  selected (the one the batch resolves to, or the one selected before), the
  batch is applied without error, the time field is rebuilt with the slots
  of that day, and the time field then equals the batch's time if that time
  is among the regenerated slots; if it is not, the field reads as
  unselected. The reports are the entries for fields without an element and
  the notification of the updated fields; nothing marks the time as
  unmatched.
\<close>

theorem explicit_time_after_regeneration:
  assumes "distinct (map fst batch)"
    and "map_of batch ''appointment-date'' = Some s" and "isDateString s"
    and "map_of batch ''appointment-time'' = Some t" and "t \<noteq> []"
    and "tagName (appointment_date (form a)) \<noteq> ''SELECT''"
    and "tagName (appointment_time (form a)) = ''SELECT''"
    and "val (case map_of batch ''doctor'' of None \<Rightarrow> doctor (form a)
              | Some dv \<Rightarrow> assignField ''doctor'' (doctor (form a)) dv) = d"
    and "doctorAvailability d = Some av"
    and "weekdayOf ev s \<in> set (days_of av)"
  shows "\<exists>a' h. updateAppointmentForm ev batch a =
            Inr (a', map FieldNotFound (filter (\<lambda>f. getElementById (form a) f = None) (map fst batch))
                     @ [FormUpdateNotification
                          (filter (\<lambda>f. getElementById (form a) f \<noteq> None) (map fst batch))])
     \<and> slotHours av d (weekdayOf ev s) = Inr h
     \<and> map optionValue (options (appointment_time (form a'))) =
          [] # timeSlots (parseTime (start h)) (parseTime (finish h))
     \<and> val (appointment_time (form a')) =
          (if t \<in> set (timeSlots (parseTime (start h)) (parseTime (finish h))) then t else [])
     \<and> val (appointment_date (form a')) = s"
proof -
  let ?ps = "fst (firstPass batch (startPass a))"
  let ?a0 = "a\<lparr>form := page_of ?ps\<rparr>"
  let ?a1 = "doctorPass ev batch (needsDoctorHandler ?ps) ?a0"
  have nd: "needsDateHandler ?ps = True"
    using key_in_batch [OF assms(2)] by (simp only: first_pass_summary)
  have "doctor (page_of ?ps) = (case map_of batch ''doctor'' of None \<Rightarrow> doctor (form a)
              | Some dv \<Rightarrow> assignField ''doctor'' (doctor (form a)) dv)"
    by (cases "map_of batch ''doctor''") (simp_all add: first_pass_elements [OF assms(1)])
  then have d0: "val (doctor (form ?a0)) = d"
    using assms(8) by simp
  have s0: "val (appointment_date (form ?a0)) = s"
    using assms(3,6) by (simp add: first_pass_elements(4) [OF assms(1,2)] assignField_date)
  have t0: "tagName (appointment_time (form ?a0)) = ''SELECT''"
    using assms(7) by (simp add: first_pass_elements(5) [OF assms(1,4)])
  have dn: "val (doctor (form ?a0)) \<noteq> []"
    using assms(9) unfolding d0 by (auto simp add: doctorAvailability_def)
  have d1: "val (doctor (form ?a1)) = d" using doctorPass_keeps(1) [OF dn] d0 by simp
  have s1: "val (appointment_date (form ?a1)) = s" using doctorPass_keeps(2) [OF dn] s0 by simp
  have t1: "tagName (appointment_time (form ?a1)) = ''SELECT''"
    using doctorPass_keeps(3) [OF dn] t0 by simp
  obtain h where h: "slotHours av d (weekdayOf ev s) = Inr h"
    using slotHours_catalogue [OF assms(9)] ..
  from datePass_accepted [OF assms(4,5) t1 d1 s1 isDateString_nonempty [OF assms(3)] assms(9,10) h]
  obtain a' where x: "datePass ev batch True ?a1 = Inr (a', [])
     \<and> map optionValue (options (appointment_time (form a'))) =
          [] # timeSlots (parseTime (start h)) (parseTime (finish h))
     \<and> val (appointment_time (form a')) =
          (if t \<in> set (timeSlots (parseTime (start h)) (parseTime (finish h))) then t else [])
     \<and> val (appointment_date (form a')) = s" ..
  note dp = x [THEN conjunct1] and rest = x [THEN conjunct2]
  have U: "updateAppointmentForm ev batch a =
            Inr (a', map FieldNotFound (filter (\<lambda>f. getElementById (form a) f = None) (map fst batch))
                     @ [FormUpdateNotification
                          (filter (\<lambda>f. getElementById (form a) f \<noteq> None) (map fst batch))])"
    unfolding updateAppointmentForm_startPass nd dp
    by (simp only: first_pass_summary(1,2) updated_nonempty [OF assms(2)] sum.case prod.case
        if_True append_Nil)
  show ?thesis
    by (rule exI [of _ a'], rule exI [of _ h]) (simp only: U h rest simp_thms)
qed

text \<open>
  Claim C2, as stated, fails: with Grey selected, a batch that sets Monday the
  third of June 2030 and the time 09:15 has its date accepted and the sixteen
  slots from 09:00 to 16:30 generated, but 09:15 is not one of them; the time
  field then reads as unselected, and the only report lists the time among
  the updated fields.
\<close>

theorem explicit_time_lost_counterexample:
  "map_sum id (\<lambda>(a', r). (val (appointment_time (form a')), val (appointment_date (form a')),
                           length (options (appointment_time (form a'))), r))
     (updateAppointmentForm exampleEnv
        [(''appointment-date'', ''2030-06-03''), (''appointment-time'', ''09:15'')]
        (exampleAppWith ''Grey, Meredith''))
   = Inr ([], ''2030-06-03'', 17,
          [FormUpdateNotification [''appointment-date'', ''appointment-time'']])"
  by code_simp

text \<open>
  A date that does not arrive as a date string is emptied by the date field:
  the date handler then returns at once, no slots are generated, and the time
  of the batch is no option of the time field.
\<close>

lemma other_date_format_emptied:
  "map_sum id (\<lambda>(a', r). (val (appointment_date (form a')), val (appointment_time (form a')),
                           length (options (appointment_time (form a'))), r))
     (updateAppointmentForm exampleEnv
        [(''appointment-date'', ''06/03/2030''), (''appointment-time'', ''09:30'')]
        (exampleAppWith ''Grey, Meredith''))
   = Inr ([], [], 1, [FormUpdateNotification [''appointment-date'', ''appointment-time'']])"
  by code_simp

theorem explicit_time_after_regeneration_witness:
  "distinct (map fst [(''appointment-date'', ''2030-06-03''), (''appointment-time'', ''09:30'')])
   \<and> isDateString ''2030-06-03''
   \<and> tagName (appointment_date (form (exampleAppWith ''Grey, Meredith''))) \<noteq> ''SELECT''
   \<and> tagName (appointment_time (form (exampleAppWith ''Grey, Meredith''))) = ''SELECT''
   \<and> val (doctor (form (exampleAppWith ''Grey, Meredith''))) = ''Grey, Meredith''
   \<and> doctorAvailability ''Grey, Meredith'' = Some (the (doctorAvailability ''Grey, Meredith''))
   \<and> weekdayOf exampleEnv ''2030-06-03'' \<in> set (days_of (the (doctorAvailability ''Grey, Meredith'')))
   \<and> (\<exists>a'. updateAppointmentForm exampleEnv
                 [(''appointment-date'', ''2030-06-03''), (''appointment-time'', ''09:30'')]
                 (exampleAppWith ''Grey, Meredith'')
              = Inr (a', [FormUpdateNotification [''appointment-date'', ''appointment-time'']])
        \<and> val (appointment_time (form a')) = ''09:30''
        \<and> val (appointment_date (form a')) = ''2030-06-03'')"
proof -
  let ?batch = "[(''appointment-date'', ''2030-06-03''), (''appointment-time'', ''09:30'')]"
  let ?a = "exampleAppWith ''Grey, Meredith''"
  let ?av = "the (doctorAvailability ''Grey, Meredith'')"
  have 1: "distinct (map fst ?batch)" by simp
  have 2: "map_of ?batch ''appointment-date'' = Some ''2030-06-03''" by simp
  have 3: "isDateString ''2030-06-03''" by code_simp
  have 4: "map_of ?batch ''appointment-time'' = Some ''09:30''" by simp
  have 5: "''09:30'' \<noteq> []" by simp
  have 6: "tagName (appointment_date (form ?a)) \<noteq> ''SELECT''" by code_simp
  have 7: "tagName (appointment_time (form ?a)) = ''SELECT''" by code_simp
  have d: "val (doctor (form ?a)) = ''Grey, Meredith''" by code_simp
  have 8: "val (case map_of ?batch ''doctor'' of None \<Rightarrow> doctor (form ?a)
              | Some dv \<Rightarrow> assignField ''doctor'' (doctor (form ?a)) dv) = ''Grey, Meredith''"
    using d by simp
  have 9: "doctorAvailability ''Grey, Meredith'' = Some ?av"
    by (simp add: doctorAvailability_def)
  have 10: "weekdayOf exampleEnv ''2030-06-03'' \<in> set (days_of ?av)"
    by (simp add: exampleEnv_def doctorAvailability_def)
  have h: "slotHours ?av ''Grey, Meredith'' (weekdayOf exampleEnv ''2030-06-03'') =
      Inr \<lparr>start = ''09:00'', finish = ''17:00''\<rparr>"
    by (simp add: slotHours_def doctorAvailability_def)
  have m: "''09:30'' \<in> set (timeSlots (parseTime ''09:00'') (parseTime ''17:00''))"
    by code_simp
  have g: "filter (\<lambda>f. getElementById (form ?a) f = None) (map fst ?batch) = []"
    "filter (\<lambda>f. getElementById (form ?a) f \<noteq> None) (map fst ?batch) =
       [''appointment-date'', ''appointment-time'']"
    by (simp_all add: get_form_elements)
  from explicit_time_after_regeneration [OF 1 2 3 4 5 6 7 8 9 10]
  obtain a' h' where x: "updateAppointmentForm exampleEnv ?batch ?a =
            Inr (a', map FieldNotFound (filter (\<lambda>f. getElementById (form ?a) f = None) (map fst ?batch))
                     @ [FormUpdateNotification
                          (filter (\<lambda>f. getElementById (form ?a) f \<noteq> None) (map fst ?batch))])
     \<and> slotHours ?av ''Grey, Meredith'' (weekdayOf exampleEnv ''2030-06-03'') = Inr h'
     \<and> map optionValue (options (appointment_time (form a'))) =
          [] # timeSlots (parseTime (start h')) (parseTime (finish h'))
     \<and> val (appointment_time (form a')) =
          (if ''09:30'' \<in> set (timeSlots (parseTime (start h')) (parseTime (finish h')))
           then ''09:30'' else [])
     \<and> val (appointment_date (form a')) = ''2030-06-03''"
    by (elim exE)
  from x h have h': "h' = \<lparr>start = ''09:00'', finish = ''17:00''\<rparr>" by simp
  have r: "updateAppointmentForm exampleEnv ?batch ?a =
      Inr (a', [FormUpdateNotification [''appointment-date'', ''appointment-time'']])
      \<and> val (appointment_time (form a')) = ''09:30''
      \<and> val (appointment_date (form a')) = ''2030-06-03''"
    using x m unfolding h' g by simp
  then have "\<exists>a'. updateAppointmentForm exampleEnv ?batch ?a =
      Inr (a', [FormUpdateNotification [''appointment-date'', ''appointment-time'']])
      \<and> val (appointment_time (form a')) = ''09:30''
      \<and> val (appointment_date (form a')) = ''2030-06-03''"
    by (rule exI [of _ a'])
  with 1 3 6 7 d 9 10 show ?thesis by (simp only: simp_thms)
qed

section \<open>An explicit location and the provider's handler\<close>

lemma findMatchingOption_mem:
  assumes "findMatchingOption e c = Some m"
  shows "m \<in> set (options e)"
proof -
  from findMatchingOption_Some [OF assms]
  obtain i where "i < length (options e)" "options e ! i = m" by blast
  then show ?thesis by (metis nth_mem)
qed

lemma assignField_location_matched:
  assumes "tagName e = ''SELECT''" and "findMatchingOption e lv = Some lm"
  shows "val (assignField ''appointment-location'' e lv) = optionValue lm"
  using assms findMatchingOption_mem [OF assms(2)]
  by (simp add: assignField_def val_setValue_member)

lemma handleDateSelection_frame:
  assumes "doctorAvailability (val (doctor (form a))) = Some av"
    and "val (doctor (form a)) \<noteq> ''House, Gregory''"
  shows "\<exists>a' r. handleDateSelection ev a = Inr (a', r)
     \<and> appointment_location (form a') = appointment_location (form a)
     \<and> doctor (form a') = doctor (form a)
     \<and> validateDate a' = validateDate a
     \<and> attr_min (appointment_date (form a')) = attr_min (appointment_date (form a))
     \<and> attr_max (appointment_date (form a')) = attr_max (appointment_date (form a))
     \<and> disabled (appointment_date (form a')) = disabled (appointment_date (form a))"
proof -
  obtain h where h: "slotHours av (val (doctor (form a)))
      (weekdayOf ev (val (appointment_date (form a)))) = Inr h"
    using slotHours_catalogue [OF assms(1)] ..
  show ?thesis
    using assms h
    by (simp add: handleDateSelection_def Let_def generateTimeSlots_catalogue)
qed

lemma datePass_frame:
  assumes "doctorAvailability (val (doctor (form a))) = Some av"
    and "\<not> nd \<or> val (doctor (form a)) \<noteq> ''House, Gregory''"
  shows "\<exists>a' r. datePass ev batch nd a = Inr (a', r)
     \<and> appointment_location (form a') = appointment_location (form a)
     \<and> doctor (form a') = doctor (form a)
     \<and> validateDate a' = validateDate a
     \<and> attr_min (appointment_date (form a')) = attr_min (appointment_date (form a))
     \<and> attr_max (appointment_date (form a')) = attr_max (appointment_date (form a))
     \<and> disabled (appointment_date (form a')) = disabled (appointment_date (form a))"
proof (cases nd)
  case False
  then show ?thesis by (simp add: datePass_def)
next
  case True
  with assms(2) have "val (doctor (form a)) \<noteq> ''House, Gregory''" by simp
  from handleDateSelection_frame [OF assms(1) this, of ev]
  obtain a1 r where x: "handleDateSelection ev a = Inr (a1, r)
     \<and> appointment_location (form a1) = appointment_location (form a)
     \<and> doctor (form a1) = doctor (form a)
     \<and> validateDate a1 = validateDate a
     \<and> attr_min (appointment_date (form a1)) = attr_min (appointment_date (form a))
     \<and> attr_max (appointment_date (form a1)) = attr_max (appointment_date (form a))
     \<and> disabled (appointment_date (form a1)) = disabled (appointment_date (form a))"
    by (elim exE)
  then show ?thesis
    using True by (simp add: datePass_def Let_def split: option.splits)
qed

text \<open>
  Claim C1, amended. For every batch that sets the provider and a non-empty
  location that resolves to an option, where the provider resolves to one of
  the catalogue, and unless the batch also sets a date while the provider is
  House, Gregory: the batch is applied without error, the location field
  equals the batch's resolved location, and the date restrictions of the
  chosen provider are set up (the minimum and maximum date, the validation
  for the provider's days, the date field enabled).
\<close>

theorem explicit_location_kept:
  assumes "distinct (map fst batch)"
    and "map_of batch ''doctor'' = Some dv"
    and "map_of batch ''appointment-location'' = Some lv" and "lv \<noteq> []"
    and "tagName (appointment_location (form a)) = ''SELECT''"
    and "findMatchingOption (appointment_location (form a)) lv = Some lm"
    and "val (assignField ''doctor'' (doctor (form a)) dv) = d"
    and "doctorAvailability d = Some av"
    and "map_of batch ''appointment-date'' = None \<or> d \<noteq> ''House, Gregory''"
  shows "\<exists>a' r. updateAppointmentForm ev batch a = Inr (a', r)
     \<and> val (appointment_location (form a')) = optionValue lm
     \<and> val (doctor (form a')) = d
     \<and> validateDate a' = Some (days_of av)
     \<and> attr_min (appointment_date (form a')) = tomorrow ev
     \<and> attr_max (appointment_date (form a')) = maxDate ev
     \<and> \<not> disabled (appointment_date (form a'))"
proof -
  let ?ps = "fst (firstPass batch (startPass a))"
  let ?a0 = "a\<lparr>form := page_of ?ps\<rparr>"
  let ?a1 = "?a0\<lparr>form := (form ?a0)\<lparr>appointment_date :=
          (appointment_date (form ?a0))\<lparr>attr_min := tomorrow ev, attr_max := maxDate ev,
                                      disabled := False\<rparr>\<rparr>,
       validateDate := Some (days_of av)\<rparr>"
  have ndoc: "needsDoctorHandler ?ps = True"
    using key_in_batch [OF assms(2)] by (simp only: first_pass_summary)
  have d0: "val (doctor (form ?a0)) = d"
    using assms(7) by (simp add: first_pass_elements(2) [OF assms(1,2)])
  have l0: "val (appointment_location (form ?a0)) = optionValue lm"
    by (simp add: first_pass_elements(3) [OF assms(1,3)]
        assignField_location_matched [OF assms(5,6)])
  have tr: "truthy (map_of batch ''appointment-location'')"
    using assms(3,4) by (simp add: truthy_def)
  have av0: "doctorAvailability (val (doctor (form ?a0))) = Some av"
    using assms(8) by (simp only: d0)
  have dp: "doctorPass ev batch (needsDoctorHandler ?ps) ?a0 = ?a1"
    unfolding ndoc by (rule doctorPass_explicit_location [OF tr av0])
  have d1: "val (doctor (form ?a1)) = d" using d0 by simp
  have av1: "doctorAvailability (val (doctor (form ?a1))) = Some av"
    using assms(8) by (simp only: d1)
  have "\<not> needsDateHandler ?ps \<or> val (doctor (form ?a1)) \<noteq> ''House, Gregory''"
  proof (cases "map_of batch ''appointment-date''")
    case None
    then have "''appointment-date'' \<notin> fst ` set batch"
      by (simp add: map_of_eq_None_iff)
    then show ?thesis by (simp only: first_pass_summary) simp
  next
    case (Some s)
    with assms(9) have "d \<noteq> ''House, Gregory''" by simp
    then show ?thesis by (simp only: d1) simp
  qed
  from datePass_frame [OF av1 this, of ev batch]
  obtain a' r2 where x: "datePass ev batch (needsDateHandler ?ps) ?a1 = Inr (a', r2)
     \<and> appointment_location (form a') = appointment_location (form ?a1)
     \<and> doctor (form a') = doctor (form ?a1)
     \<and> validateDate a' = validateDate ?a1
     \<and> attr_min (appointment_date (form a')) = attr_min (appointment_date (form ?a1))
     \<and> attr_max (appointment_date (form a')) = attr_max (appointment_date (form ?a1))
     \<and> disabled (appointment_date (form a')) = disabled (appointment_date (form ?a1))"
    by (elim exE)
  note dpass = x [THEN conjunct1] and rest = x [THEN conjunct2]
  have U: "\<exists>r. updateAppointmentForm ev batch a = Inr (a', r)"
    unfolding updateAppointmentForm_startPass dp dpass by simp
  have P: "val (appointment_location (form a')) = optionValue lm
     \<and> val (doctor (form a')) = d
     \<and> validateDate a' = Some (days_of av)
     \<and> attr_min (appointment_date (form a')) = tomorrow ev
     \<and> attr_max (appointment_date (form a')) = maxDate ev
     \<and> \<not> disabled (appointment_date (form a'))"
    using rest l0 d0 by simp
  from U obtain r where "updateAppointmentForm ev batch a = Inr (a', r)" ..
  with P show ?thesis by (intro exI [of _ a'] exI [of _ r] conjI) simp_all
qed

text \<open>
  Claim C1, as stated, fails in two ways. A batch that sets House, Gregory,
  the location Jefferson Hospital and a Monday leaves the location at PPTH
  Orthopedics: the date handler sets the location of House's segment for
  that day. A batch that sets Grey, Meredith and the empty location leaves
  the location at Sloan Primary Care: an empty string does not count as a
  location set by the batch, and the provider's handler runs.
\<close>

theorem explicit_location_overwritten_counterexample:
  "map_option optionValue
     (findMatchingOption (appointment_location (form exampleApp)) ''Jefferson Hospital'')
     = Some ''Jefferson Hospital''
   \<and> map_sum id (\<lambda>(a', r). val (appointment_location (form a')))
       (updateAppointmentForm exampleEnv
          [(''doctor'', ''House, Gregory''), (''appointment-location'', ''Jefferson Hospital''),
           (''appointment-date'', ''2030-06-03'')] exampleApp)
     = Inr ''PPTH Orthopedics''
   \<and> map_option optionValue (findMatchingOption (appointment_location (form exampleApp)) [])
     = Some []
   \<and> map_sum id (\<lambda>(a', r). val (appointment_location (form a')))
       (updateAppointmentForm exampleEnv
          [(''doctor'', ''Grey, Meredith''), (''appointment-location'', [])] exampleApp)
     = Inr ''Sloan Primary Care''"
  by code_simp

theorem explicit_location_kept_witness:
  "distinct (map fst [(''doctor'', ''House, Gregory''), (''appointment-location'', ''Jefferson Hospital'')])
   \<and> tagName (appointment_location (form exampleApp)) = ''SELECT''
   \<and> findMatchingOption (appointment_location (form exampleApp)) ''Jefferson Hospital''
       = Some (slotOption ''Jefferson Hospital'')
   \<and> val (assignField ''doctor'' (doctor (form exampleApp)) ''House, Gregory'') = ''House, Gregory''
   \<and> doctorAvailability ''House, Gregory'' = Some (the (doctorAvailability ''House, Gregory''))
   \<and> (\<exists>a' r. updateAppointmentForm exampleEnv
                 [(''doctor'', ''House, Gregory''), (''appointment-location'', ''Jefferson Hospital'')]
                 exampleApp = Inr (a', r)
        \<and> val (appointment_location (form a')) = ''Jefferson Hospital''
        \<and> val (doctor (form a')) = ''House, Gregory''
        \<and> validateDate a' = Some [''monday'', ''tuesday'', ''wednesday'', ''thursday'', ''friday'']
        \<and> attr_min (appointment_date (form a')) = ''2030-01-02''
        \<and> attr_max (appointment_date (form a')) = ''2030-04-01''
        \<and> \<not> disabled (appointment_date (form a')))"
proof -
  let ?batch = "[(''doctor'', ''House, Gregory''), (''appointment-location'', ''Jefferson Hospital'')]"
  have 1: "distinct (map fst ?batch)" by simp
  have 2: "map_of ?batch ''doctor'' = Some ''House, Gregory''" by simp
  have 3: "map_of ?batch ''appointment-location'' = Some ''Jefferson Hospital''" by simp
  have 4: "''Jefferson Hospital'' \<noteq> []" by simp
  have 5: "tagName (appointment_location (form exampleApp)) = ''SELECT''"
    by (simp add: exampleApp_def examplePage_def exampleSelect_def tagName_def)
  have 6: "findMatchingOption (appointment_location (form exampleApp)) ''Jefferson Hospital''
       = Some (slotOption ''Jefferson Hospital'')" by code_simp
  have 7: "val (assignField ''doctor'' (doctor (form exampleApp)) ''House, Gregory'') = ''House, Gregory''"
    by code_simp
  have 8: "doctorAvailability ''House, Gregory'' = Some (the (doctorAvailability ''House, Gregory''))"
    by (simp add: doctorAvailability_def)
  have 9: "map_of ?batch ''appointment-date'' = None \<or> ''House, Gregory'' \<noteq> ''House, Gregory''"
    by simp
  have e: "days_of (the (doctorAvailability ''House, Gregory'')) =
      [''monday'', ''tuesday'', ''wednesday'', ''thursday'', ''friday'']"
    "tomorrow exampleEnv = ''2030-01-02''" "maxDate exampleEnv = ''2030-04-01''"
    "optionValue (slotOption ''Jefferson Hospital'') = ''Jefferson Hospital''"
    by (simp_all add: doctorAvailability_def exampleEnv_def slotOption_def)
  from explicit_location_kept [OF 1 2 3 4 5 6 7 8 9, of exampleEnv] 1 5 6 7 8
  show ?thesis by (simp only: e simp_thms)
qed

end
